theory Spec2Isabelle
  imports Complex_Main
begin

section \<open>Strings of integers\<close>

text \<open>
  The decimal representation of an integer, with a leading minus sign for a negative
  one: what \<open>String(n)\<close> gives for an integer \<open>n\<close> with \<open>|n| \<le> 2^53\<close>.
\<close>

definition digit :: "nat \<Rightarrow> char" where
  "digit n = ''0123456789'' ! (n mod 10)"

function decimal :: "nat \<Rightarrow> string" where
  "decimal n = (if n < 10 then [digit n] else decimal (n div 10) @ [digit (n mod 10)])"
  by pat_completeness auto
termination
  by (relation "measure id") auto

declare decimal.simps [simp del]

definition String_int :: "int \<Rightarrow> string" where
  "String_int i = (if i < 0 then CHR ''-'' # decimal (nat (- i)) else decimal (nat i))"

section \<open>JavaScript numbers\<close>

text \<open>
  A number is a double: NaN, an infinity or a finite value, given as the rational it
  denotes (\<open>-0\<close> is \<open>0\<close>). \<open>Math.max\<close>, \<open>Math.min\<close>, \<open>Math.floor\<close> and the comparisons are
  exact on doubles.
\<close>

datatype jsnum = NaN | PosInf | NegInf | Fin rat

fun isFinite :: "jsnum \<Rightarrow> bool" where
  "isFinite (Fin r) = True"
| "isFinite n = False"

text \<open>Truthiness of a number: \<open>0\<close> and \<open>NaN\<close> are falsy.\<close>

fun truthy_num :: "jsnum \<Rightarrow> bool" where
  "truthy_num NaN = False"
| "truthy_num (Fin r) = (r \<noteq> 0)"
| "truthy_num n = True"

fun Math_max :: "jsnum \<Rightarrow> jsnum \<Rightarrow> jsnum" where
  "Math_max NaN b = NaN"
| "Math_max a NaN = NaN"
| "Math_max PosInf b = PosInf"
| "Math_max a PosInf = PosInf"
| "Math_max NegInf b = b"
| "Math_max a NegInf = a"
| "Math_max (Fin x) (Fin y) = Fin (max x y)"

fun Math_min :: "jsnum \<Rightarrow> jsnum \<Rightarrow> jsnum" where
  "Math_min NaN b = NaN"
| "Math_min a NaN = NaN"
| "Math_min NegInf b = NegInf"
| "Math_min a NegInf = NegInf"
| "Math_min PosInf b = b"
| "Math_min a PosInf = a"
| "Math_min (Fin x) (Fin y) = Fin (min x y)"

text \<open>The comparisons \<open>a <= b\<close> and \<open>a < b\<close> (false when either side is NaN) and \<open>a === b\<close>.\<close>

fun num_le :: "jsnum \<Rightarrow> jsnum \<Rightarrow> bool" where
  "num_le NaN b = False"
| "num_le a NaN = False"
| "num_le NegInf b = True"
| "num_le a PosInf = True"
| "num_le PosInf b = False"
| "num_le a NegInf = False"
| "num_le (Fin x) (Fin y) = (x \<le> y)"

fun num_lt :: "jsnum \<Rightarrow> jsnum \<Rightarrow> bool" where
  "num_lt NaN b = False"
| "num_lt a NaN = False"
| "num_lt PosInf b = False"
| "num_lt a NegInf = False"
| "num_lt NegInf b = True"
| "num_lt a PosInf = True"
| "num_lt (Fin x) (Fin y) = (x < y)"

fun num_eq :: "jsnum \<Rightarrow> jsnum \<Rightarrow> bool" where
  "num_eq NaN b = False"
| "num_eq a NaN = False"
| "num_eq a b = (a = b)"

text \<open>
  The host: what the language and the browser compute and this theory leaves open.
  \<^item> \<open>h_round\<close>: the double nearest to an exact sum or difference (IEEE 754, ties to
    even; an infinity on overflow), asked only when the exact result is not an integer
    of absolute value at most \<open>2^53\<close>;
  \<^item> \<open>h_numstr\<close>: \<open>String(x)\<close> of a finite number that is not such an integer;
  \<^item> \<open>h_parse\<close>: the number \<open>parseInt\<close> gives for a digit string in a radix whose
    value exceeds \<open>2^53\<close>;
  \<^item> \<open>h_toLocaleString\<close>: \<open>Number.prototype.toLocaleString\<close>.
\<close>

record host =
  h_round :: "rat \<Rightarrow> jsnum"
  h_numstr :: "rat \<Rightarrow> string"
  h_parse :: "int \<Rightarrow> string \<Rightarrow> jsnum"
  h_toLocaleString :: "jsnum \<Rightarrow> string"

text \<open>
  An integer of absolute value at most \<open>2^53\<close> is a double, so a sum or difference of
  doubles with such an exact result is that result; any other result is rounded by the
  host.
\<close>

definition exact_int :: "rat \<Rightarrow> bool" where
  "exact_int r = (r = of_int \<lfloor>r\<rfloor> \<and> \<bar>r\<bar> \<le> 2 ^ 53)"

definition rnd :: "host \<Rightarrow> rat \<Rightarrow> jsnum" where
  "rnd h r = (if exact_int r then Fin r else h_round h r)"

fun num_add :: "host \<Rightarrow> jsnum \<Rightarrow> jsnum \<Rightarrow> jsnum" where
  "num_add h NaN b = NaN"
| "num_add h a NaN = NaN"
| "num_add h PosInf NegInf = NaN"
| "num_add h NegInf PosInf = NaN"
| "num_add h PosInf b = PosInf"
| "num_add h a PosInf = PosInf"
| "num_add h NegInf b = NegInf"
| "num_add h a NegInf = NegInf"
| "num_add h (Fin x) (Fin y) = rnd h (x + y)"

fun num_sub :: "host \<Rightarrow> jsnum \<Rightarrow> jsnum \<Rightarrow> jsnum" where
  "num_sub h NaN b = NaN"
| "num_sub h a NaN = NaN"
| "num_sub h PosInf PosInf = NaN"
| "num_sub h NegInf NegInf = NaN"
| "num_sub h PosInf b = PosInf"
| "num_sub h a NegInf = PosInf"
| "num_sub h NegInf b = NegInf"
| "num_sub h a PosInf = NegInf"
| "num_sub h (Fin x) (Fin y) = rnd h (x - y)"

fun num_neg :: "jsnum \<Rightarrow> jsnum" where
  "num_neg NaN = NaN"
| "num_neg PosInf = NegInf"
| "num_neg NegInf = PosInf"
| "num_neg (Fin x) = Fin (- x)"

text \<open>
  \<open>String(n)\<close> of a number: an integer of absolute value at most \<open>2^53\<close> prints in
  decimal; any other finite number is printed by the host.
\<close>

fun String_num :: "(rat \<Rightarrow> string) \<Rightarrow> jsnum \<Rightarrow> string" where
  "String_num numstr NaN = ''NaN''"
| "String_num numstr PosInf = ''Infinity''"
| "String_num numstr NegInf = ''-Infinity''"
| "String_num numstr (Fin r) = (if exact_int r then String_int \<lfloor>r\<rfloor> else numstr r)"

section \<open>Strings\<close>

text \<open>
  A string of the user (the keyword) is a list of UTF-16 code units, each an integer
  from 0 to \<open>2^16 - 1\<close>. The strings the program itself writes and reads (labels, URLs, markup,
  option values) are ASCII and are kept as \<open>string\<close>; \<open>lit\<close> gives their code units.
\<close>

type_synonym ustring = "int list"

definition lit :: "string \<Rightarrow> ustring" where
  "lit s = map of_char s"

text \<open>The white space and line terminators that \<open>String.prototype.trim\<close> strips.\<close>

definition is_white :: "int \<Rightarrow> bool" where
  "is_white u =
     (u \<in> {0x9, 0xA, 0xB, 0xC, 0xD, 0x20, 0xA0, 0x1680, 0x2028, 0x2029, 0x202F, 0x205F,
            0x3000, 0xFEFF}
      \<or> (0x2000 \<le> u \<and> u \<le> 0x200A))"

definition trim :: "ustring \<Rightarrow> ustring" where
  "trim s = rev (dropWhile is_white (rev (dropWhile is_white s)))"

definition digit_val :: "char \<Rightarrow> int option" where
  "digit_val c =
     (let n = (of_char c :: int)
      in if 48 \<le> n \<and> n \<le> 57 then Some (n - 48)
         else if 97 \<le> n \<and> n \<le> 122 then Some (n - 87)
         else if 65 \<le> n \<and> n \<le> 90 then Some (n - 55)
         else None)"

definition is_digit :: "int \<Rightarrow> char \<Rightarrow> bool" where
  "is_digit R c = (case digit_val c of None \<Rightarrow> False | Some d \<Rightarrow> d < R)"

definition digits_value :: "int \<Rightarrow> string \<Rightarrow> int" where
  "digits_value R ds =
     foldl (\<lambda>acc c. acc * R + (case digit_val c of None \<Rightarrow> 0 | Some d \<Rightarrow> d)) 0 ds"

text \<open>
  \<open>parseInt(str, radix)\<close> of an ASCII string: skip leading white space, read a sign,
  pick the radix (an absent or zero radix is 10, or 16 after a \<open>0x\<close> prefix), read the
  longest prefix of digits. No digit gives NaN; a value up to \<open>2^53\<close> is exact; a larger
  one is the host's.
\<close>

definition parseInt :: "host \<Rightarrow> string \<Rightarrow> int option \<Rightarrow> jsnum" where
  "parseInt h str radix =
     (let s0 = dropWhile (\<lambda>c. is_white (of_char c)) str;
          neg = (s0 \<noteq> [] \<and> hd s0 = CHR ''-'');
          s1 = (if s0 \<noteq> [] \<and> (hd s0 = CHR ''-'' \<or> hd s0 = CHR ''+'') then tl s0 else s0);
          R0 = (case radix of None \<Rightarrow> 0 | Some R \<Rightarrow> R);
          hex = ((R0 = 0 \<or> R0 = 16) \<and> (take 2 s1 = ''0x'' \<or> take 2 s1 = ''0X''));
          R = (if hex then 16 else if R0 = 0 then 10 else R0);
          s2 = (if hex then drop 2 s1 else s1);
          ds = takeWhile (is_digit R) s2;
          v = digits_value R ds;
          number = (if v \<le> 2 ^ 53 then Fin (of_int v) else h_parse h R ds)
      in if R < 2 \<or> 36 < R then NaN
         else if ds = [] then NaN
         else if neg then num_neg number else number)"

fun str_includes :: "string \<Rightarrow> string \<Rightarrow> bool" where
  "str_includes [] sub = (sub = [])"
| "str_includes (c # cs) sub = (take (length sub) (c # cs) = sub \<or> str_includes cs sub)"

section \<open>JavaScript values\<close>

text \<open>
  A value: \<open>undefined\<close>, \<open>null\<close>, a boolean, a number, a string, an array (of elements
  of type \<open>'a\<close>) or another object.
\<close>

datatype 'a jsval =
  JUndefined | JNull | JBool bool | JNum jsnum | JStr ustring | JArr "'a list" | JObj

text \<open>
  \<open>Number(v)\<close>. The conversion of a string, an array or an object to a number (the
  language's string-to-number grammar, \<open>valueOf\<close>, \<open>toString\<close>) is the parameter
  \<open>tonum\<close>.
\<close>

fun Number_js :: "('a jsval \<Rightarrow> jsnum) \<Rightarrow> 'a jsval \<Rightarrow> jsnum" where
  "Number_js tonum JUndefined = NaN"
| "Number_js tonum JNull = Fin 0"
| "Number_js tonum (JBool b) = Fin (if b then 1 else 0)"
| "Number_js tonum (JNum n) = n"
| "Number_js tonum v = tonum v"

section \<open>ResultsUIBuilder: the pagination window\<close>

text \<open>
  An item of the page list is an object literal \<open>{type, page, label, current, disabled}\<close>.
  The source leaves \<open>current\<close> out of the Prev and Next items and \<open>disabled\<close> out of
  the numbered ones; an absent key is \<open>None\<close>.
\<close>

datatype item =
  PageItem jsnum string "bool option" "bool option"
| EllipsisItem

text \<open>
  The loop \<^verbatim>\<open>for (let p = start; p <= end; p++) items.push(...)\<close>. It need not end
  (\<open>p++\<close> leaves a \<open>p\<close> of \<open>2^53\<close> where it is): \<open>None\<close> is a loop that never ends.
\<close>

partial_function (option) pushWindow ::
  "host \<Rightarrow> jsnum \<Rightarrow> jsnum \<Rightarrow> jsnum \<Rightarrow> item list \<Rightarrow> item list option" where
  "pushWindow h current endp p items =
     (if num_le p endp
      then pushWindow h current endp (num_add h p (Fin 1))
             (items @ [PageItem p (String_num (h_numstr h) p) (Some (num_eq p current)) None])
      else Some items)"

declare pushWindow.simps [code]

definition clamp :: "jsnum \<Rightarrow> jsnum \<Rightarrow> jsnum" where
  "clamp total' n = Math_max (Fin 1) (Math_min total' n)"

definition buildPageList :: "host \<Rightarrow> jsnum \<Rightarrow> jsnum \<Rightarrow> jsnum \<Rightarrow> item list option" where
  "buildPageList h current total' neighbors =
     (let items0 = [];
          items1 = items0 @ [PageItem (clamp total' (num_sub h current (Fin 1))) ''Prev'' None
                               (Some (num_le current (Fin 1)))];
          items2 = items1 @ [PageItem (Fin 1) ''1'' (Some (num_eq current (Fin 1))) None];
          start = Math_max (Fin 2) (num_sub h current neighbors);
          endp = Math_min (num_sub h total' (Fin 1)) (num_add h current neighbors);
          items3 = (if num_lt (Fin 2) start then items2 @ [EllipsisItem] else items2)
      in case pushWindow h current endp start items3 of
           None \<Rightarrow> None
         | Some items4 \<Rightarrow>
             (let items5 = (if num_lt endp (num_sub h total' (Fin 1))
                            then items4 @ [EllipsisItem] else items4);
                  items6 = (if num_lt (Fin 1) total'
                            then items5 @ [PageItem total' (String_num (h_numstr h) total')
                                             (Some (num_eq current total')) None]
                            else items5);
                  items7 = items6 @ [PageItem (clamp total' (num_add h current (Fin 1))) ''Next'' None
                                       (Some (num_le total' current))]
              in Some items7))"

text \<open>\<open>#renderPagination\<close> calls \<open>#buildPageList(page, totalPages)\<close>: \<open>neighbors\<close> takes its default, 1.\<close>

definition buildPageList_default :: "host \<Rightarrow> jsnum \<Rightarrow> jsnum \<Rightarrow> item list option" where
  "buildPageList_default h current total' = buildPageList h current total' (Fin 1)"

section \<open>The rendering surface\<close>

text \<open>An element has a tag, a class list, attributes and children.\<close>

datatype dom =
  Element string "string list" "(string \<times> string) list" "dom list"
| TextNode string

fun set_attr :: "string \<Rightarrow> string \<Rightarrow> dom \<Rightarrow> dom" where
  "set_attr k v (Element tag cls attrs kids) =
     Element tag cls (if k \<in> fst ` set attrs
                      then map (\<lambda>(k', v'). if k' = k then (k', v) else (k', v')) attrs
                      else attrs @ [(k, v)]) kids"
| "set_attr k v (TextNode t) = TextNode t"

text \<open>
  \<open>el.querySelector("img")\<close> followed by an assignment to \<open>alt\<close>. \<open>build()\<close> appends the
  product image as the first child of the card, so the first \<open>img\<close> in document order is
  found among the children.
\<close>

fun set_first_img_alt :: "string \<Rightarrow> dom list \<Rightarrow> dom list" where
  "set_first_img_alt a [] = []"
| "set_first_img_alt a (Element tag cls attrs kids # ds) =
     (if tag = ''img'' then set_attr ''alt'' a (Element tag cls attrs kids) # ds
      else Element tag cls attrs kids # set_first_img_alt a ds)"
| "set_first_img_alt a (TextNode t # ds) = TextNode t # set_first_img_alt a ds"

fun has_class :: "string \<Rightarrow> dom \<Rightarrow> bool" where
  "has_class c (Element tag cls attrs kids) = (c \<in> set cls)"
| "has_class c (TextNode t) = False"

fun children :: "dom \<Rightarrow> dom list" where
  "children (Element tag cls attrs kids) = kids"
| "children (TextNode t) = []"

section \<open>CardBuilder\<close>

record CardBuilder =
  cb_imageSrc :: string
  cb_description :: string
  cb_stars :: "string list"
  cb_rating :: "jsnum option"
  cb_reviewCount :: jsnum
  cb_link :: string

definition FULL :: string where "FULL = ''./star.svg''"
definition HALF :: string where "HALF = ''./star-half.svg''"

text \<open>The constructor: the rating starts at \<open>0\<close>, not at \<open>null\<close>.\<close>

definition CardBuilder_new :: CardBuilder where
  "CardBuilder_new =
     \<lparr>cb_imageSrc = [], cb_description = [], cb_stars = [], cb_rating = Some (Fin 0),
      cb_reviewCount = Fin 0, cb_link = ''#''\<rparr>"

definition setImage :: "string \<Rightarrow> CardBuilder \<Rightarrow> CardBuilder" where
  "setImage src cb = cb\<lparr>cb_imageSrc := src\<rparr>"

definition setDescription :: "string \<Rightarrow> CardBuilder \<Rightarrow> CardBuilder" where
  "setDescription desc cb = cb\<lparr>cb_description := desc\<rparr>"

definition setStars ::
  "(string jsval \<Rightarrow> jsnum) \<Rightarrow> string jsval \<Rightarrow> CardBuilder \<Rightarrow> CardBuilder" where
  "setStars tonum starArrayOrRating cb =
     (case starArrayOrRating of
        JArr icons \<Rightarrow> cb\<lparr>cb_stars := icons\<rparr>
      | _ \<Rightarrow>
         (case Number_js tonum starArrayOrRating of
            Fin rating \<Rightarrow>
              (let r = min 5 (max 0 rating);
                   full = \<lfloor>r\<rfloor>;
                   hasHalf = (r < 5 \<and> r \<noteq> of_int full);
                   icons = replicate (nat full) FULL;
                   icons' = (if hasHalf then icons @ [HALF] else icons)
               in cb\<lparr>cb_rating := Some (Fin rating), cb_stars := icons'\<rparr>)
          | _ \<Rightarrow> cb\<lparr>cb_stars := []\<rparr>))"

definition setRating :: "jsnum option \<Rightarrow> CardBuilder \<Rightarrow> CardBuilder" where
  "setRating rating cb = cb\<lparr>cb_rating := rating\<rparr>"

definition setReviewCount :: "jsnum \<Rightarrow> CardBuilder \<Rightarrow> CardBuilder" where
  "setReviewCount n cb = cb\<lparr>cb_reviewCount := n\<rparr>"

definition setLink :: "string \<Rightarrow> CardBuilder \<Rightarrow> CardBuilder" where
  "setLink link cb = cb\<lparr>cb_link := link\<rparr>"

definition star_span :: "string \<Rightarrow> dom" where
  "star_span starSrc =
     Element ''span'' [''star''] []
       [Element ''img'' []
          [(''src'', starSrc),
           (''alt'', if str_includes starSrc ''half'' then ''half-star-review'' else ''full-star-review'')]
          []]"

definition score_block :: "host \<Rightarrow> CardBuilder \<Rightarrow> jsnum \<Rightarrow> dom" where
  "score_block h cb rating =
     Element ''div'' [''score''] []
       (map star_span (cb_stars cb)
        @ [Element ''span'' [] [] [TextNode (''('' @ String_num (h_numstr h) rating @ '')'')]])"

definition reviews_block :: "host \<Rightarrow> CardBuilder \<Rightarrow> dom" where
  "reviews_block h cb =
     Element ''div'' [''reviews''] []
       [Element ''img'' [] [(''src'', ''./message-bubble.svg''), (''alt'', ''message-bubble'')] [],
        Element ''span'' [] [] [TextNode (h_toLocaleString h (cb_reviewCount cb))],
        Element ''span'' [] [] [TextNode ''reviews'']]"

text \<open>\<open>CardBuilder.build()\<close>: the score and reviews blocks are guarded by \<open>this.rating != null\<close>.\<close>

definition build :: "host \<Rightarrow> CardBuilder \<Rightarrow> dom" where
  "build h cb =
     (let img = Element ''img'' []
                  [(''src'', cb_imageSrc cb), (''alt'', ''product image '' @ cb_description cb)] [];
          desc = Element ''p'' [] [] [TextNode (cb_description cb)];
          kids0 = [img, desc];
          kids1 = (case cb_rating cb of
                     None \<Rightarrow> kids0
                   | Some rating \<Rightarrow> kids0 @ [score_block h cb rating, reviews_block h cb]);
          kids2 = kids1 @ [Element ''hr'' [] [] []];
          linkEl = Element ''a'' [] [(''href'', cb_link cb), (''target'', ''_blank'')]
                     [Element ''img'' [] [(''src'', ''./link.svg''), (''alt'', ''link-icon'')] [],
                      TextNode '' View on Amazon'']
      in Element ''div'' [''card''] [] (kids2 @ [linkEl]))"

section \<open>ResultsUIBuilder: setters and cards\<close>

text \<open>A product record of the response; an absent or \<open>null\<close> field is \<open>None\<close>.\<close>

record product =
  p_title :: "string option"
  p_image :: "string option"
  p_url :: "string option"
  p_asin :: "string option"
  p_rating :: "jsnum option"
  p_reviews :: "jsnum option"

type_synonym elem = nat
type_synonym handler = nat

record 'a ResultsUIBuilder =
  rb_headerEl :: "elem option"
  rb_paginationEl :: "elem option"
  rb_resultsEl :: "elem option"
  rb_iconSrc :: "'a jsval"
  rb_label :: "'a jsval"
  rb_keyword :: "'a jsval"
  rb_count :: jsnum
  rb_page :: jsnum
  rb_totalPages :: jsnum
  rb_onClick :: "handler option"
  rb_products :: "'a list"

definition ResultsUIBuilder_new ::
  "elem option \<Rightarrow> elem option \<Rightarrow> elem option \<Rightarrow> 'a ResultsUIBuilder" where
  "ResultsUIBuilder_new headerEl paginationEl resultsEl =
     \<lparr>rb_headerEl = headerEl, rb_paginationEl = paginationEl, rb_resultsEl = resultsEl,
      rb_iconSrc = JStr (lit ''./shopping-cart.svg''),
      rb_label = JStr (lit ''Amazon Products''),
      rb_keyword = JStr [], rb_count = Fin 0, rb_page = Fin 1, rb_totalPages = Fin 1,
      rb_onClick = None, rb_products = []\<rparr>"

definition setIcon :: "'a jsval \<Rightarrow> 'a ResultsUIBuilder \<Rightarrow> 'a ResultsUIBuilder" where
  "setIcon src b = b\<lparr>rb_iconSrc := src\<rparr>"

definition setLabel :: "'a jsval \<Rightarrow> 'a ResultsUIBuilder \<Rightarrow> 'a ResultsUIBuilder" where
  "setLabel text b = b\<lparr>rb_label := text\<rparr>"

definition setKeyword :: "'a jsval \<Rightarrow> 'a ResultsUIBuilder \<Rightarrow> 'a ResultsUIBuilder" where
  "setKeyword kw b =
     b\<lparr>rb_keyword := (case kw of JUndefined \<Rightarrow> JStr [] | JNull \<Rightarrow> JStr [] | _ \<Rightarrow> kw)\<rparr>"

definition setCount ::
  "('a jsval \<Rightarrow> jsnum) \<Rightarrow> 'a jsval \<Rightarrow> 'a ResultsUIBuilder \<Rightarrow> 'a ResultsUIBuilder" where
  "setCount tonum n b =
     b\<lparr>rb_count := (if truthy_num (Number_js tonum n) then Number_js tonum n else Fin 0)\<rparr>"

definition setPage ::
  "('a jsval \<Rightarrow> jsnum) \<Rightarrow> 'a jsval \<Rightarrow> 'a ResultsUIBuilder \<Rightarrow> 'a ResultsUIBuilder" where
  "setPage tonum p b =
     b\<lparr>rb_page := Math_max (Fin 1)
                     (if truthy_num (Number_js tonum p) then Number_js tonum p else Fin 1)\<rparr>"

definition setProducts :: "'a jsval \<Rightarrow> 'a ResultsUIBuilder \<Rightarrow> 'a ResultsUIBuilder" where
  "setProducts p b = b\<lparr>rb_products := (case p of JArr ps \<Rightarrow> ps | _ \<Rightarrow> [])\<rparr>"

definition setTotalPages ::
  "('a jsval \<Rightarrow> jsnum) \<Rightarrow> 'a jsval \<Rightarrow> 'a ResultsUIBuilder \<Rightarrow> 'a ResultsUIBuilder" where
  "setTotalPages tonum tp b =
     b\<lparr>rb_totalPages := Math_max (Fin 1)
                           (if truthy_num (Number_js tonum tp) then Number_js tonum tp else Fin 1)\<rparr>"

definition setResultsEl :: "elem option \<Rightarrow> 'a ResultsUIBuilder \<Rightarrow> 'a ResultsUIBuilder" where
  "setResultsEl el b = b\<lparr>rb_resultsEl := el\<rparr>"

definition onPageClick :: "handler option \<Rightarrow> 'a ResultsUIBuilder \<Rightarrow> 'a ResultsUIBuilder" where
  "onPageClick handler b = b\<lparr>rb_onClick := handler\<rparr>"

text \<open>A call of one fluent setter, and a chain of such calls on a builder.\<close>

datatype 'a setter =
  SetIcon "'a jsval" | SetLabel "'a jsval" | SetKeyword "'a jsval" | SetCount "'a jsval"
| SetPage "'a jsval" | SetProducts "'a jsval" | SetTotalPages "'a jsval"
| SetResultsEl "elem option" | OnPageClick "handler option"

fun call_setter ::
  "('a jsval \<Rightarrow> jsnum) \<Rightarrow> 'a ResultsUIBuilder \<Rightarrow> 'a setter \<Rightarrow> 'a ResultsUIBuilder" where
  "call_setter tonum b (SetIcon v) = setIcon v b"
| "call_setter tonum b (SetLabel v) = setLabel v b"
| "call_setter tonum b (SetKeyword v) = setKeyword v b"
| "call_setter tonum b (SetCount v) = setCount tonum v b"
| "call_setter tonum b (SetPage v) = setPage tonum v b"
| "call_setter tonum b (SetProducts v) = setProducts v b"
| "call_setter tonum b (SetTotalPages v) = setTotalPages tonum v b"
| "call_setter tonum b (SetResultsEl el) = setResultsEl el b"
| "call_setter tonum b (OnPageClick f) = onPageClick f b"

definition chain ::
  "('a jsval \<Rightarrow> jsnum) \<Rightarrow> 'a ResultsUIBuilder \<Rightarrow> 'a setter list \<Rightarrow> 'a ResultsUIBuilder" where
  "chain tonum b calls = foldl (call_setter tonum) b calls"

text \<open>\<open>x || d\<close> on an optional string: an absent value and the empty string are falsy.\<close>

definition or_default :: "string option \<Rightarrow> string \<Rightarrow> string" where
  "or_default x d = (case x of None \<Rightarrow> d | Some s \<Rightarrow> if s = [] then d else s)"

text \<open>
  The callback of \<open>this.products.map\<close> in \<open>#renderCards\<close>, one product to one card, in its
  two steps: the CardBuilder is configured from the product, then the built element is
  annotated.
\<close>

definition configure :: "(string jsval \<Rightarrow> jsnum) \<Rightarrow> product \<Rightarrow> CardBuilder" where
  "configure tonum p =
     (let builder = setLink (or_default (p_url p) ''#'')
                      (setDescription (or_default (p_title p) ''Untitled product'')
                         (setImage (or_default (p_image p) ''./example.jpg'') CardBuilder_new));
          reviews = (case p_reviews p of None \<Rightarrow> Fin 0 | Some n \<Rightarrow> n)
      in case p_rating p of
           Some rating \<Rightarrow>
             setStars tonum (JNum rating)
               (setReviewCount reviews (setRating (Some rating) builder))
         | None \<Rightarrow> setReviewCount reviews builder)"

definition renderCard :: "(string jsval \<Rightarrow> jsnum) \<Rightarrow> host \<Rightarrow> product \<Rightarrow> dom" where
  "renderCard tonum h p =
     (let el = set_attr ''data-asin'' (or_default (p_asin p) []) (build h (configure tonum p))
      in case (el, p_title p) of
           (Element tag cls attrs kids, Some t) \<Rightarrow>
             (if t \<noteq> [] then Element tag cls attrs (set_first_img_alt t kids) else el)
         | _ \<Rightarrow> el)"

definition renderCards ::
  "(string jsval \<Rightarrow> jsnum) \<Rightarrow> host \<Rightarrow> product ResultsUIBuilder \<Rightarrow> dom list" where
  "renderCards tonum h b =
     (case rb_resultsEl b of None \<Rightarrow> [] | Some el \<Rightarrow> map (renderCard tonum h) (rb_products b))"


section \<open>apiModel: the fetch client\<close>

text \<open>The parsed response body; \<open>None\<close> is a body that is \<open>null\<close>.\<close>

record resultSet =
  r_count :: "jsnum option"
  r_totalPages :: "jsnum option"
  r_products :: "product list option"

datatype http_body = InvalidJson | Json "resultSet option"

text \<open>
  What \<open>fetch\<close> does with a URL: it rejects (network failure), it is aborted by the
  8000 ms timer, or it resolves to a response with a status and a body.
\<close>

datatype fetch_outcome = NetworkFailure | TimedOut | Response nat http_body

datatype error = KeywordRequired | FetchFailed | FetchAborted | HttpError nat | JsonSyntaxError

record network =
  n_api_base :: string
  n_fetch :: "string \<Rightarrow> fetch_outcome"

text \<open>
  \<open>URLSearchParams\<close>. \<open>set\<close> replaces the first pair of that name and drops the others,
  or appends. \<open>toString\<close> is the \<open>application/x-www-form-urlencoded\<close> serializer: the
  code units are read as scalar values (a surrogate pair is one, a lone surrogate is
  U+FFFD), encoded in UTF-8, and each byte is written as \<open>+\<close> for a space, as itself for
  a letter, a digit or one of \<open>*-._\<close>, and percent-encoded otherwise.
\<close>

fun params_set ::
  "(ustring \<times> ustring) list \<Rightarrow> ustring \<Rightarrow> ustring \<Rightarrow> (ustring \<times> ustring) list" where
  "params_set [] k v = [(k, v)]"
| "params_set ((k', v') # ps) k v =
     (if k' = k then (k, v) # filter (\<lambda>(a, b). a \<noteq> k) ps else (k', v') # params_set ps k v)"

definition is_high :: "int \<Rightarrow> bool" where
  "is_high u = (0xD800 \<le> u \<and> u \<le> 0xDBFF)"

definition is_low :: "int \<Rightarrow> bool" where
  "is_low u = (0xDC00 \<le> u \<and> u \<le> 0xDFFF)"

fun scalars :: "ustring \<Rightarrow> int list" where
  "scalars [] = []"
| "scalars [u] = [if is_high u \<or> is_low u then 0xFFFD else u]"
| "scalars (u # v # us) =
     (if is_high u \<and> is_low v
      then (0x10000 + (u - 0xD800) * 0x400 + (v - 0xDC00)) # scalars us
      else (if is_high u \<or> is_low u then 0xFFFD else u) # scalars (v # us))"

definition utf8 :: "int \<Rightarrow> int list" where
  "utf8 cp =
     (if cp < 0x80 then [cp]
      else if cp < 0x800 then [0xC0 + cp div 0x40, 0x80 + cp mod 0x40]
      else if cp < 0x10000
        then [0xE0 + cp div 0x1000, 0x80 + (cp div 0x40) mod 0x40, 0x80 + cp mod 0x40]
      else [0xF0 + cp div 0x40000, 0x80 + (cp div 0x1000) mod 0x40,
            0x80 + (cp div 0x40) mod 0x40, 0x80 + cp mod 0x40])"

definition hexdigit :: "int \<Rightarrow> char" where
  "hexdigit n = ''0123456789ABCDEF'' ! nat (n mod 16)"

definition pct :: "int \<Rightarrow> string" where
  "pct b = [CHR ''%'', hexdigit (b div 16), hexdigit b]"

definition unreserved :: "int \<Rightarrow> bool" where
  "unreserved b =
     ((48 \<le> b \<and> b \<le> 57) \<or> (65 \<le> b \<and> b \<le> 90) \<or> (97 \<le> b \<and> b \<le> 122)
      \<or> b \<in> {42, 45, 46, 95})"

definition encode_byte :: "int \<Rightarrow> string" where
  "encode_byte b = (if b = 32 then ''+'' else if unreserved b then [char_of b] else pct b)"

definition urlencode :: "ustring \<Rightarrow> string" where
  "urlencode s = concat (map encode_byte (concat (map utf8 (scalars s))))"

fun join :: "string \<Rightarrow> string list \<Rightarrow> string" where
  "join sep [] = []"
| "join sep [x] = x"
| "join sep (x # y # ys) = x @ sep @ join sep (y # ys)"

definition params_toString :: "(ustring \<times> ustring) list \<Rightarrow> string" where
  "params_toString ps = join ''&'' (map (\<lambda>(k, v). urlencode k @ ''='' @ urlencode v) ps)"

definition ok :: "nat \<Rightarrow> bool" where
  "ok status = (200 \<le> status \<and> status \<le> 299)"

text \<open>
  \<open>scrape(keyword, page, pages)\<close>. An absent (\<open>undefined\<close> or \<open>null\<close>) \<open>page\<close> or \<open>pages\<close>
  is \<open>None\<close>. The result is the value returned or the error thrown, with the URLs handed
  to \<open>fetch\<close>.
\<close>

definition scrape ::
  "host \<Rightarrow> network \<Rightarrow> ustring \<Rightarrow> jsnum option \<Rightarrow> jsnum option
     \<Rightarrow> (error + resultSet option) \<times> string list" where
  "scrape h nw keyword page pages =
     (if keyword = [] \<or> trim keyword = [] then (Inl KeywordRequired, [])
      else
        (let params0 = params_set [] (lit ''keyword'') keyword;
             params1 = (case page of None \<Rightarrow> params0
                        | Some n \<Rightarrow> params_set params0 (lit ''page'')
                                     (lit (String_num (h_numstr h) n)));
             params2 = (case pages of None \<Rightarrow> params1
                        | Some n \<Rightarrow> params_set params1 (lit ''pages'')
                                     (lit (String_num (h_numstr h) n)));
             url = n_api_base nw @ ''/scrape?'' @ params_toString params2
         in (case n_fetch nw url of
               NetworkFailure \<Rightarrow> Inl FetchFailed
             | TimedOut \<Rightarrow> Inl FetchAborted
             | Response status body \<Rightarrow>
                 (if \<not> ok status then Inl (HttpError status)
                  else case body of InvalidJson \<Rightarrow> Inl JsonSyntaxError | Json r \<Rightarrow> Inr r),
             [url])))"

section \<open>main: the page controller\<close>

record scrapingData =
  sd_keyword :: ustring
  sd_page :: jsnum
  sd_pages :: "jsnum option"
  sd_totalPages :: jsnum

datatype content = Html string | Text string

record infoCard =
  i_hidden :: bool
  i_content :: content

text \<open>
  The module's state: \<open>scrapingData\<close>, the elements it looked up (\<open>None\<close> when
  \<open>querySelector\<close> found nothing), the button's \<open>disabled\<close> flag, the builder that
  \<open>updateResultsUI\<close> last built, and the URLs fetched so far.
\<close>

record controller =
  c_scrapingData :: scrapingData
  c_infoCard :: "infoCard option"
  c_pagination :: "elem option"
  c_resultsHeader :: "elem option"
  c_resultsContainer :: "elem option"
  c_buttonDisabled :: bool
  c_built :: "product ResultsUIBuilder option"
  c_requests :: "string list"

definition ENTER_KEYWORD :: string where
  "ENTER_KEYWORD = ''<h2 style='' @ [CHR 0x27] @ ''color: #000'' @ [CHR 0x27]
                     @ ''>Please enter a keyword first.</h2>''"

definition RETRY_MESSAGE :: string where
  "RETRY_MESSAGE = ''Could not load results. Please try again.''"

definition changePage_ref :: handler where
  "changePage_ref = 0"

definition updateResultsUI ::
  "(product jsval \<Rightarrow> jsnum) \<Rightarrow> resultSet option \<Rightarrow> controller \<Rightarrow> controller" where
  "updateResultsUI tonum results c =
     (let keyword = sd_keyword (c_scrapingData c);
          page = sd_page (c_scrapingData c);
          b0 = ResultsUIBuilder_new (c_resultsHeader c) (c_pagination c) (c_resultsContainer c);
          b1 = setKeyword (JStr keyword) b0;
          b2 = setPage tonum (JNum page) b1;
          b3 = setCount tonum
                 (case Option.bind results r_count of None \<Rightarrow> JNum (Fin 0) | Some n \<Rightarrow> JNum n) b2;
          b4 = setTotalPages tonum
                 (case Option.bind results r_totalPages of
                    None \<Rightarrow> JNum (sd_totalPages (c_scrapingData c))
                  | Some n \<Rightarrow> JNum n) b3;
          b5 = setProducts
                 (case Option.bind results r_products of None \<Rightarrow> JArr [] | Some ps \<Rightarrow> JArr ps) b4;
          b6 = onPageClick (Some changePage_ref) b5
      in c\<lparr>c_built := Some b6\<rparr>)"

definition show_info :: "content \<Rightarrow> controller \<Rightarrow> controller" where
  "show_info msg c =
     c\<lparr>c_infoCard := map_option (\<lambda>i. i\<lparr>i_hidden := False, i_content := msg\<rparr>) (c_infoCard c)\<rparr>"

definition hide_info :: "controller \<Rightarrow> controller" where
  "hide_info c = c\<lparr>c_infoCard := map_option (\<lambda>i. i\<lparr>i_hidden := True\<rparr>) (c_infoCard c)\<rparr>"

text \<open>
  \<open>scrapeAmazon()\<close>, run to completion with the outcome of its one fetch; the arguments
  are \<open>keywordInput.value\<close> and \<open>pageSelect.value\<close>.
\<close>

definition scrapeAmazon ::
  "(product jsval \<Rightarrow> jsnum) \<Rightarrow> host \<Rightarrow> network \<Rightarrow> ustring \<Rightarrow> string \<Rightarrow> controller
     \<Rightarrow> controller" where
  "scrapeAmazon tonum h nw keywordValue pageSelectValue c =
     (let pagesVal = parseInt h pageSelectValue (Some 10);
          keyword = trim keywordValue
      in if keyword = [] then show_info (Html ENTER_KEYWORD) c
         else
           (let sd = (c_scrapingData c)
                       \<lparr>sd_keyword := keyword, sd_page := Fin 1,
                        sd_pages := (if isFinite pagesVal then Some pagesVal else None)\<rparr>;
                c1 = c\<lparr>c_scrapingData := sd, c_buttonDisabled := True\<rparr>;
                (res, urls) = scrape h nw (sd_keyword sd) (Some (sd_page sd)) (sd_pages sd);
                c2 = c1\<lparr>c_requests := c_requests c1 @ urls\<rparr>;
                c3 = (case res of
                        Inr results \<Rightarrow>
                          (let tp = (case Option.bind results r_totalPages of
                                       Some (Fin t) \<Rightarrow> Fin t | _ \<Rightarrow> Fin 1);
                               c' = c2\<lparr>c_scrapingData := (c_scrapingData c2)\<lparr>sd_totalPages := tp\<rparr>\<rparr>
                           in hide_info (updateResultsUI tonum results c'))
                      | Inl err \<Rightarrow> show_info (Text RETRY_MESSAGE) c2)
            in c3\<lparr>c_buttonDisabled := False\<rparr>))"




section \<open>Observations used in the statements\<close>

text \<open>
  The safe integers of the language, \<open>|i| \<le> 2^53 - 1\<close>: the integers that page numbers
  are taken from in the statements below.
\<close>

definition MAX_SAFE_INTEGER :: int where
  "MAX_SAFE_INTEGER = 2 ^ 53 - 1"

definition num :: "int \<Rightarrow> jsnum" where
  "num i = Fin (of_int i)"

text \<open>The numbered item of page \<open>q\<close> when the current page is \<open>current\<close>.\<close>

definition numbered_item :: "int \<Rightarrow> int \<Rightarrow> item" where
  "numbered_item current q = PageItem (num q) (String_int q) (Some (q = current)) None"





text \<open>The blocks of a card carrying the rating: the children of class \<open>score\<close> or \<open>reviews\<close>.\<close>

definition rating_blocks :: "dom \<Rightarrow> dom list" where
  "rating_blocks el = filter (\<lambda>d. has_class ''score'' d \<or> has_class ''reviews'' d) (children el)"

text \<open>
  The URL of the interface description,
  \<^verbatim>\<open>{API_BASE}/scrape?keyword={urlencoded}&page={..}&pages={..}\<close>, with \<open>page\<close> and \<open>pages\<close>
  left out when absent.
\<close>

definition request_url :: "host \<Rightarrow> network \<Rightarrow> ustring \<Rightarrow> jsnum option \<Rightarrow> jsnum option \<Rightarrow> string" where
  "request_url h nw keyword page pages =
     n_api_base nw @ ''/scrape?keyword='' @ urlencode keyword
     @ (case page of None \<Rightarrow> []
        | Some n \<Rightarrow> ''&page='' @ urlencode (lit (String_num (h_numstr h) n)))
     @ (case pages of None \<Rightarrow> []
        | Some n \<Rightarrow> ''&pages='' @ urlencode (lit (String_num (h_numstr h) n)))"

text \<open>A fetch fails when \<open>scrape\<close> throws: no response, a timeout, a status outside 200..299.\<close>

fun fetch_fails :: "fetch_outcome \<Rightarrow> bool" where
  "fetch_fails NetworkFailure = True"
| "fetch_fails TimedOut = True"
| "fetch_fails (Response status body) = (\<not> ok status)"


section \<open>Concrete environments for the examples\<close>

text \<open>A host whose conversion of strings, arrays and objects to numbers always gives NaN.\<close>

definition tonum_NaN :: "'a jsval \<Rightarrow> jsnum" where
  "tonum_NaN v = NaN"

text \<open>
  IEEE 754 rounding of a rational to the nearest double, ties to even: \<open>lg\<close> is the
  binary exponent of \<open>|r|\<close>, \<open>e\<close> the exponent of the last place (at least \<open>-1074\<close>), and a
  result of \<open>2^1024\<close> or more is an infinity.
\<close>

function bitlen :: "int \<Rightarrow> int" where
  "bitlen n = (if n \<le> 0 then 0 else 1 + bitlen (n div 2))"
  by pat_completeness auto
termination
  by (relation "measure nat") auto

declare bitlen.simps [simp del]

definition pow2 :: "int \<Rightarrow> rat" where
  "pow2 e = (if 0 \<le> e then 2 ^ nat e else 1 / 2 ^ nat (- e))"

definition round_half_even :: "rat \<Rightarrow> int" where
  "round_half_even m =
     (let f = \<lfloor>m\<rfloor>; d = m - of_int f
      in if d < 1 / 2 then f else if 1 / 2 < d then f + 1 else if even f then f else f + 1)"

definition ieee_round :: "rat \<Rightarrow> jsnum" where
  "ieee_round r =
     (if r = 0 then Fin 0
      else
        (let a = \<bar>r\<bar>;
             k = bitlen (fst (quotient_of a)) - bitlen (snd (quotient_of a));
             lg = (if pow2 k \<le> a then k else k - 1);
             e = max (lg - 52) (- 1074);
             v = of_int (round_half_even (a / pow2 e)) * pow2 e
         in if 2 ^ 1024 \<le> v then (if 0 < r then PosInf else NegInf)
            else Fin (if 0 < r then v else - v)))"

text \<open>
  A host with that rounding: a digit string above \<open>2^53\<close> is read as the nearest double.
  Of the numbers that are not integers up to \<open>2^53\<close>, the examples print only 2.5; the
  host's \<open>String\<close> is written out for that one alone.
\<close>

definition numstr_example :: "rat \<Rightarrow> string" where
  "numstr_example r = (if r = 5 / 2 then ''2.5'' else ''?'')"

definition ieee_parse :: "int \<Rightarrow> string \<Rightarrow> jsnum" where
  "ieee_parse R ds = ieee_round (of_int (digits_value R ds))"

definition ieee_host :: host where
  "ieee_host = \<lparr>h_round = ieee_round, h_numstr = numstr_example, h_parse = ieee_parse,
                 h_toLocaleString = String_num numstr_example\<rparr>"

text \<open>A network on which every fetch is rejected.\<close>

definition no_route :: "string \<Rightarrow> fetch_outcome" where
  "no_route url = NetworkFailure"

definition offline :: network where
  "offline = \<lparr>n_api_base = ''http://localhost:8081/api'', n_fetch = no_route\<rparr>"

text \<open>
  A server that answers every request with status 200, no products and a total of
  2.5 pages.
\<close>

definition server :: "string \<Rightarrow> fetch_outcome" where
  "server url =
     Response 200 (Json (Some
       \<lparr>r_count = Some (Fin 30), r_totalPages = Some (Fin (5 / 2)), r_products = Some []\<rparr>))"

definition online :: network where
  "online = \<lparr>n_api_base = ''http://localhost:8081/api'', n_fetch = server\<rparr>"

text \<open>The module's state when it is loaded, with all its elements found.\<close>

definition c_init :: controller where
  "c_init =
     \<lparr>c_scrapingData = \<lparr>sd_keyword = [], sd_page = Fin 1, sd_pages = Some (Fin 1),
                          sd_totalPages = Fin 1\<rparr>,
      c_infoCard = Some \<lparr>i_hidden = False, i_content = Text []\<rparr>,
      c_pagination = Some 0, c_resultsHeader = Some 1, c_resultsContainer = Some 2,
      c_buttonDisabled = False, c_built = None, c_requests = []\<rparr>"

text \<open>A state in the middle of a session: page 3 of 5 of the search for \<open>mug\<close>.\<close>

definition c_page3 :: controller where
  "c_page3 = c_init\<lparr>c_scrapingData :=
     \<lparr>sd_keyword = lit ''mug'', sd_page = Fin 3, sd_pages = Some (Fin 1), sd_totalPages = Fin 5\<rparr>\<rparr>"




section \<open>Properties of the numbers\<close>

lemma exact_int_of_int: "\<bar>i\<bar> \<le> 2 ^ 53 \<Longrightarrow> exact_int (of_int i)"
proof -
  assume a: "\<bar>i\<bar> \<le> 2 ^ 53"
  have "(of_int \<bar>i\<bar> :: rat) \<le> of_int (2 ^ 53)" using a by (simp only: of_int_le_iff)
  then have "\<bar>of_int i :: rat\<bar> \<le> 2 ^ 53" by simp
  then show ?thesis by (simp add: exact_int_def)
qed

lemma add_exact: "\<bar>i + j\<bar> \<le> 2 ^ 53 \<Longrightarrow> num_add h (num i) (num j) = num (i + j)"
  using exact_int_of_int [of "i + j"] by (simp add: rnd_def num_def)

lemma sub_exact: "\<bar>i - j\<bar> \<le> 2 ^ 53 \<Longrightarrow> num_sub h (num i) (num j) = num (i - j)"
  using exact_int_of_int [of "i - j"] by (simp add: rnd_def num_def)

lemma String_num_exact: "\<bar>i\<bar> \<le> 2 ^ 53 \<Longrightarrow> String_num f (num i) = String_int i"
  using exact_int_of_int [of i] by (simp add: num_def)

lemma num_simps:
  "Math_max (num a) (num b) = num (max a b)"
  "Math_min (num a) (num b) = num (min a b)"
  "num_le (num a) (num b) = (a \<le> b)"
  "num_lt (num a) (num b) = (a < b)"
  "num_eq (num a) (num b) = (a = b)"
  "(num a = num b) = (a = b)"
  by (simp_all add: num_def max_def min_def)

lemma num_numerals: "Fin 1 = num 1" "Fin 2 = num 2"
  by (simp_all add: num_def)

section \<open>Properties of the pagination window\<close>

lemma pushWindow_safe:
  assumes "- (2 ^ 53) \<le> p" and "e < 2 ^ 53"
  shows "pushWindow h (num c) (num e) (num p) items = Some (items @ map (numbered_item c) [p..e])"
  using assms
proof (induction "nat (e + 1 - p)" arbitrary: p items)
  case 0
  then have "\<not> p \<le> e" by simp
  then show ?case by (subst pushWindow.simps) (simp add: num_simps)
next
  case (Suc n)
  then have le: "p \<le> e" by simp
  have n: "n = nat (e + 1 - (p + 1))" using Suc.hyps(2) by simp
  have b1: "\<bar>p + 1\<bar> \<le> 2 ^ 53" using le Suc.prems by (simp add: abs_le_iff)
  have b2: "\<bar>p\<bar> \<le> 2 ^ 53" using le Suc.prems by (simp add: abs_le_iff)
  have step: "num_add h (num p) (Fin 1) = num (p + 1)"
    using add_exact [of p 1 h] b1 by (simp add: num_numerals)
  have ih: "pushWindow h (num c) (num e) (num (p + 1)) its =
           Some (its @ map (numbered_item c) [p + 1..e])" for its
    using Suc.hyps(1) [OF n] Suc.prems by simp
  have "pushWindow h (num c) (num e) (num p) items =
          pushWindow h (num c) (num e) (num_add h (num p) (Fin 1))
            (items @ [PageItem (num p) (String_num (h_numstr h) (num p))
                        (Some (num_eq (num p) (num c))) None])"
    using le by (subst pushWindow.simps) (simp add: num_simps)
  also have "\<dots> = Some ((items @ [numbered_item c p]) @ map (numbered_item c) [p + 1..e])"
    unfolding step String_num_exact [OF b2] ih by (simp add: numbered_item_def num_simps)
  finally show ?case
    using le by (simp add: upto_rec1 [of p e])
qed

lemma buildPageList_safe:
  assumes t: "1 \<le> t" "t \<le> MAX_SAFE_INTEGER"
    and c: "\<bar>c\<bar> \<le> MAX_SAFE_INTEGER"
    and n: "\<bar>c - n\<bar> \<le> 2 ^ 53" "\<bar>c + n\<bar> \<le> 2 ^ 53"
  shows "buildPageList h (num c) (num t) (num n) =
     Some ([PageItem (num (max 1 (min t (c - 1)))) ''Prev'' None (Some (c \<le> 1)),
            PageItem (num 1) ''1'' (Some (c = 1)) None]
           @ (if 2 < max 2 (c - n) then [EllipsisItem] else [])
           @ map (numbered_item c) [max 2 (c - n) .. min (t - 1) (c + n)]
           @ (if min (t - 1) (c + n) < t - 1 then [EllipsisItem] else [])
           @ (if 1 < t then [numbered_item c t] else [])
           @ [PageItem (num (max 1 (min t (c + 1)))) ''Next'' None (Some (t \<le> c))])"
proof -
  have tb: "\<bar>t\<bar> \<le> 2 ^ 53" "\<bar>t - 1\<bar> \<le> 2 ^ 53" "t - 1 < 2 ^ 53"
    using t by (simp_all add: MAX_SAFE_INTEGER_def abs_le_iff)
  have cb: "\<bar>c - 1\<bar> \<le> 2 ^ 53" "\<bar>c + 1\<bar> \<le> 2 ^ 53"
    using c by (simp_all add: MAX_SAFE_INTEGER_def abs_le_iff)
  have s1: "num_sub h (num c) (num 1) = num (c - 1)" using cb by (simp add: sub_exact)
  have s2: "num_add h (num c) (num 1) = num (c + 1)" using cb by (simp add: add_exact)
  have s3: "num_sub h (num t) (num 1) = num (t - 1)" using tb by (simp add: sub_exact)
  have s4: "num_sub h (num c) (num n) = num (c - n)" using n by (simp add: sub_exact)
  have s5: "num_add h (num c) (num n) = num (c + n)" using n by (simp add: add_exact)
  have st: "String_num (h_numstr h) (num t) = String_int t" using tb by (simp add: String_num_exact)
  have w: "pushWindow h (num c) (num (min (t - 1) (c + n))) (num (max 2 (c - n))) items =
             Some (items @ map (numbered_item c) [max 2 (c - n) .. min (t - 1) (c + n)])" for items
    using tb by (intro pushWindow_safe) simp_all
  show ?thesis
    unfolding buildPageList_def clamp_def Let_def num_numerals
    unfolding s1 s2 s3 s4 s5 st
    unfolding num_simps w
    by (simp add: numbered_item_def eq_commute [of c t])
qed

lemma digit_in: "digit n \<in> set ''0123456789''"
  unfolding digit_def by (rule nth_mem) simp

lemma decimal_chars: "set (decimal n) \<subseteq> set ''0123456789''"
proof (induction n rule: decimal.induct)
  case (1 n)
  show ?case
  proof (cases "n < 10")
    case True
    have "decimal n = [digit n]" using True by (subst decimal.simps) simp
    then show ?thesis using digit_in [of n] by simp
  next
    case False
    have "decimal n = decimal (n div 10) @ [digit (n mod 10)]"
      using False by (subst decimal.simps) simp
    then show ?thesis using "1" [OF False] digit_in [of "n mod 10"] by simp
  qed
qed


lemma String_int_chars: "set (String_int i) \<subseteq> set ''-0123456789''"
proof (cases "i < 0")
  case True
  then show ?thesis using decimal_chars [of "nat (- i)"] by (simp add: String_int_def subset_insertI2)
next
  case False
  then show ?thesis using decimal_chars [of "nat i"] by (simp add: String_int_def subset_insertI2)
qed











lemma String_int_digit: "0 \<le> i \<Longrightarrow> i < 10 \<Longrightarrow> String_int i = [digit (nat i)]"
  by (simp add: String_int_def decimal.simps)

text \<open>A loop whose counter is at most the bound and is left where it is by \<open>p++\<close> never ends.\<close>

lemma pushWindow_never:
  assumes "pushWindow h current endp p items = Some r"
  shows "\<not> (num_le p endp \<and> num_add h p (Fin 1) = p)"
proof (rule pushWindow.raw_induct
    [where P = "\<lambda>h current endp p items r. \<not> (num_le p endp \<and> num_add h p (Fin 1) = p)",
     OF _ assms])
  fix f h current endp p items r
  assume IH: "\<And>h' current' endp' p' items' y. f h' current' endp' p' items' = Some y
                \<Longrightarrow> \<not> (num_le p' endp' \<and> num_add h' p' (Fin 1) = p')"
    and eq: "(if num_le p endp
              then f h current endp (num_add h p (Fin 1))
                     (items @ [PageItem p (String_num (h_numstr h) p) (Some (num_eq p current)) None])
              else Some items) = Some r"
  show "\<not> (num_le p endp \<and> num_add h p (Fin 1) = p)"
  proof
    assume a: "num_le p endp \<and> num_add h p (Fin 1) = p"
    then have "f h current endp p
                 (items @ [PageItem p (String_num (h_numstr h) p) (Some (num_eq p current)) None])
               = Some r"
      using eq by simp
    then have "\<not> (num_le p endp \<and> num_add h p (Fin 1) = p)" by (rule IH)
    then show False using a by simp
  qed
qed

lemma pushWindow_stuck:
  "num_le p endp \<Longrightarrow> num_add h p (Fin 1) = p \<Longrightarrow> pushWindow h current endp p items = None"
  using pushWindow_never [of h current endp p items]
  by (cases "pushWindow h current endp p items") auto

lemma ieee_round_odd: "ieee_round 9007199254740993 = Fin 9007199254740992"
  by code_simp

lemma stuck_add: "num_add ieee_host (num (2 ^ 53)) (num 1) = num (2 ^ 53)"
  by (simp add: num_def rnd_def exact_int_def ieee_host_def ieee_round_odd)

lemma stuck_sub: "num_sub ieee_host (num (2 ^ 53 + 2)) (num 1) = num (2 ^ 53)"
  by (simp add: num_def rnd_def exact_int_def ieee_host_def ieee_round_odd)

lemma big_diverges: "buildPageList ieee_host (num (2 ^ 53)) (num (2 ^ 53 + 2)) (num 1) = None"
proof -
  have s: "num_sub ieee_host (num (2 ^ 53)) (num 1) = num (2 ^ 53 - 1)"
    by (rule sub_exact) simp
  have st: "Math_max (num 2) (num (2 ^ 53 - 1)) = num (2 ^ 53 - 1)"
    unfolding num_simps by simp
  have en: "Math_min (num (2 ^ 53)) (num (2 ^ 53)) = num (2 ^ 53)"
    unfolding num_simps by simp
  have le1: "num_le (num (2 ^ 53 - 1)) (num (2 ^ 53))" unfolding num_simps by simp
  have le2: "num_le (num (2 ^ 53)) (num (2 ^ 53))" unfolding num_simps by simp
  have a1: "num_add ieee_host (num (2 ^ 53 - 1)) (num 1) = num (2 ^ 53)"
    using add_exact [of "2 ^ 53 - 1" 1 ieee_host] by simp
  have pw: "pushWindow ieee_host c (num (2 ^ 53)) (num (2 ^ 53 - 1)) items = None" for c items
  proof -
    have "pushWindow ieee_host c (num (2 ^ 53)) (num (2 ^ 53 - 1)) items =
            pushWindow ieee_host c (num (2 ^ 53)) (num_add ieee_host (num (2 ^ 53 - 1)) (num 1))
              (items @ [PageItem (num (2 ^ 53 - 1))
                          (String_num (h_numstr ieee_host) (num (2 ^ 53 - 1)))
                          (Some (num_eq (num (2 ^ 53 - 1)) c)) None])"
      using le1 by (subst pushWindow.simps) (simp add: num_numerals)
    also have "\<dots> = None"
      unfolding a1 using le2 stuck_add [unfolded num_numerals [symmetric]]
      by (rule pushWindow_stuck)
    finally show ?thesis .
  qed
  show ?thesis
    unfolding buildPageList_def Let_def num_numerals s stuck_sub stuck_add st en pw by simp
qed

text \<open>
  Claim C1, as stated, fails beyond the safe integers: page numbers are doubles. At
  \<open>current = 2^53\<close> and \<open>total = 2^53 + 2\<close> the window ends at \<open>2^53\<close>
  (\<open>total - 1\<close> and \<open>current + 1\<close> both round to \<open>2^53\<close>), the counter reaches
  \<open>2^53\<close>, \<open>p++\<close> leaves it there, and the loop never ends: no list is returned.
\<close>

theorem C1_counterexample:
  "(1 :: int) \<le> 2 ^ 53 + 2
   \<and> num_sub ieee_host (num (2 ^ 53 + 2)) (num 1) = num (2 ^ 53)
   \<and> num_add ieee_host (num (2 ^ 53)) (num 1) = num (2 ^ 53)
   \<and> buildPageList ieee_host (num (2 ^ 53)) (num (2 ^ 53 + 2)) (num 1) = None"
  using stuck_sub stuck_add big_diverges by simp

text \<open>
  Claim C1, amended. For integers \<open>1 \<le> total \<le> 2^53 - 1\<close> and
  \<open>|current| \<le> 2^53 - 1\<close>, with \<open>neighbors = 1\<close> and whatever the host rounds and
  prints, the page list is returned and is, in this order: the Prev item (target
  \<open>current - 1\<close> clamped into \<open>[1, total]\<close>, disabled iff \<open>current \<le> 1\<close>); the item of
  page 1 (current iff \<open>current = 1\<close>); one ellipsis iff the window starts after 2; one
  item for each page of the window from \<open>max 2 (current - 1)\<close> to
  \<open>min (total - 1) (current + 1)\<close>, increasing, labelled with its decimal string (current
  iff it is \<open>current\<close>); one ellipsis iff the window ends before \<open>total - 1\<close>; the item
  of page \<open>total\<close> iff \<open>total > 1\<close>; the Next item (target \<open>current + 1\<close> clamped,
  disabled iff \<open>current \<ge> total\<close>). Both clamped targets lie in \<open>[1, total]\<close>.
\<close>

theorem C1_buildPageList_order:
  assumes "1 \<le> total'" and "total' \<le> MAX_SAFE_INTEGER" and "\<bar>current\<bar> \<le> MAX_SAFE_INTEGER"
  shows "buildPageList h (num current) (num total') (num 1) =
     Some ([PageItem (num (max 1 (min total' (current - 1)))) ''Prev'' None (Some (current \<le> 1))]
       @ [PageItem (num 1) ''1'' (Some (current = 1)) None]
       @ (if 2 < max 2 (current - 1) then [EllipsisItem] else [])
       @ map (\<lambda>p. PageItem (num p) (String_int p) (Some (p = current)) None)
           [max 2 (current - 1) .. min (total' - 1) (current + 1)]
       @ (if min (total' - 1) (current + 1) < total' - 1 then [EllipsisItem] else [])
       @ (if 1 < total'
          then [PageItem (num total') (String_int total') (Some (current = total')) None] else [])
       @ [PageItem (num (max 1 (min total' (current + 1)))) ''Next'' None (Some (total' \<le> current))])
   \<and> 1 \<le> max 1 (min total' (current - 1)) \<and> max 1 (min total' (current - 1)) \<le> total'
   \<and> 1 \<le> max 1 (min total' (current + 1)) \<and> max 1 (min total' (current + 1)) \<le> total'"
proof -
  have n: "\<bar>current - 1\<bar> \<le> 2 ^ 53" "\<bar>current + 1\<bar> \<le> 2 ^ 53"
    using assms(3) by (simp_all add: MAX_SAFE_INTEGER_def abs_le_iff)
  have m: "map (numbered_item current) ps =
           map (\<lambda>p. PageItem (num p) (String_int p) (Some (p = current)) None) ps" for ps
    by (simp add: numbered_item_def)
  show ?thesis
    using assms(1) buildPageList_safe [OF assms n, of h]
    by (simp add: m numbered_item_def eq_commute [of current total'])
qed

theorem C1_buildPageList_order_witness:
  "(1::int) \<le> 4 \<and> 4 \<le> MAX_SAFE_INTEGER \<and> \<bar>3 :: int\<bar> \<le> MAX_SAFE_INTEGER
   \<and> buildPageList ieee_host (num 3) (num 4) (num 1) =
     Some [PageItem (num 2) ''Prev'' None (Some False), PageItem (num 1) ''1'' (Some False) None,
           PageItem (num 2) ''2'' (Some False) None, PageItem (num 3) ''3'' (Some True) None,
           PageItem (num 4) ''4'' (Some False) None, PageItem (num 4) ''Next'' None (Some False)]"
proof -
  have a: "(1::int) \<le> 4" "4 \<le> MAX_SAFE_INTEGER" "\<bar>3 :: int\<bar> \<le> MAX_SAFE_INTEGER"
    by (simp_all add: MAX_SAFE_INTEGER_def)
  show ?thesis
    using a C1_buildPageList_order [OF a, of ieee_host]
    by (simp add: String_int_digit digit_def)
qed




text \<open>
  Claim C3. The page lists of the three examples: \<open>(current, total) = (1, 1)\<close> with the
  default \<open>neighbors\<close>, \<open>(5, 10)\<close> and \<open>(1, 10)\<close> with \<open>neighbors = 1\<close>.
\<close>

theorem C3_examples:
  "buildPageList_default h (Fin 1) (Fin 1) =
     Some [PageItem (Fin 1) ''Prev'' None (Some True), PageItem (Fin 1) ''1'' (Some True) None,
           PageItem (Fin 1) ''Next'' None (Some True)]
   \<and> buildPageList h (Fin 5) (Fin 10) (Fin 1) =
     Some [PageItem (Fin 4) ''Prev'' None (Some False), PageItem (Fin 1) ''1'' (Some False) None,
           EllipsisItem,
           PageItem (Fin 4) ''4'' (Some False) None, PageItem (Fin 5) ''5'' (Some True) None,
           PageItem (Fin 6) ''6'' (Some False) None, EllipsisItem,
           PageItem (Fin 10) ''10'' (Some False) None, PageItem (Fin 6) ''Next'' None (Some False)]
   \<and> buildPageList h (Fin 1) (Fin 10) (Fin 1) =
     Some [PageItem (Fin 1) ''Prev'' None (Some True), PageItem (Fin 1) ''1'' (Some True) None,
           PageItem (Fin 2) ''2'' (Some False) None, EllipsisItem,
           PageItem (Fin 10) ''10'' (Some False) None, PageItem (Fin 2) ''Next'' None (Some False)]"
proof -
  have s: "(1::int) \<le> 1" "(1::int) \<le> MAX_SAFE_INTEGER" "\<bar>1 :: int\<bar> \<le> MAX_SAFE_INTEGER"
    "(1::int) \<le> 10" "(10::int) \<le> MAX_SAFE_INTEGER" "\<bar>5 :: int\<bar> \<le> MAX_SAFE_INTEGER"
    "\<bar>1 - 1 :: int\<bar> \<le> 2 ^ 53" "\<bar>1 + 1 :: int\<bar> \<le> 2 ^ 53"
    "\<bar>5 - 1 :: int\<bar> \<le> 2 ^ 53" "\<bar>5 + 1 :: int\<bar> \<le> 2 ^ 53"
    by (simp_all add: MAX_SAFE_INTEGER_def)
  have e: "String_int 2 = ''2''" "String_int 4 = ''4''" "String_int 5 = ''5''"
    "String_int 6 = ''6''" "String_int 10 = ''10''"
    by (simp_all add: String_int_def decimal.simps digit_def)
  have a: "buildPageList h (num 1) (num 1) (num 1) =
     Some [PageItem (Fin 1) ''Prev'' None (Some True), PageItem (Fin 1) ''1'' (Some True) None,
           PageItem (Fin 1) ''Next'' None (Some True)]"
    unfolding buildPageList_safe [OF s(1,2,3,7,8)] by (simp add: num_def)
  have b: "buildPageList h (num 5) (num 10) (num 1) =
     Some [PageItem (Fin 4) ''Prev'' None (Some False), PageItem (Fin 1) ''1'' (Some False) None,
           EllipsisItem,
           PageItem (Fin 4) ''4'' (Some False) None, PageItem (Fin 5) ''5'' (Some True) None,
           PageItem (Fin 6) ''6'' (Some False) None, EllipsisItem,
           PageItem (Fin 10) ''10'' (Some False) None, PageItem (Fin 6) ''Next'' None (Some False)]"
    unfolding buildPageList_safe [OF s(4,5,6,9,10)] by (simp add: num_def numbered_item_def e)
  have c: "buildPageList h (num 1) (num 10) (num 1) =
     Some [PageItem (Fin 1) ''Prev'' None (Some True), PageItem (Fin 1) ''1'' (Some True) None,
           PageItem (Fin 2) ''2'' (Some False) None, EllipsisItem,
           PageItem (Fin 10) ''10'' (Some False) None, PageItem (Fin 2) ''Next'' None (Some False)]"
    unfolding buildPageList_safe [OF s(4,5,3,7,8)] by (simp add: num_def numbered_item_def e)
  show ?thesis using a b c by (simp add: buildPageList_default_def num_def)
qed

section \<open>Properties of the cards\<close>

lemma String_int_0: "String_int 0 = ''0''"
  by (simp add: String_int_def decimal.simps digit_def)

lemma rating_blocks_build:
  "rating_blocks (build h cb) =
     (case cb_rating cb of None \<Rightarrow> [] | Some r \<Rightarrow> [score_block h cb r, reviews_block h cb])"
  by (simp add: build_def Let_def rating_blocks_def score_block_def reviews_block_def
        split: option.splits)

lemma build_form:
  "\<exists>attrs rest. build h cb = Element ''div'' [''card''] [] (Element ''img'' [] attrs [] # rest)"
  by (cases "cb_rating cb") (simp_all add: build_def Let_def)

lemma rating_blocks_renderCard:
  "rating_blocks (renderCard tonum h p) = rating_blocks (build h (configure tonum p))"
proof -
  obtain attrs rest where
    b: "build h (configure tonum p) = Element ''div'' [''card''] [] (Element ''img'' [] attrs [] # rest)"
    using build_form by blast
  show ?thesis
    unfolding renderCard_def b
    by (simp add: rating_blocks_def Let_def split: option.splits)
qed

lemma configure_absent:
  "configure tonum (p\<lparr>p_rating := None\<rparr>) =
     \<lparr>cb_imageSrc = or_default (p_image p) ''./example.jpg'',
      cb_description = or_default (p_title p) ''Untitled product'',
      cb_stars = [], cb_rating = Some (Fin 0),
      cb_reviewCount = (case p_reviews p of None \<Rightarrow> Fin 0 | Some n \<Rightarrow> n),
      cb_link = or_default (p_url p) ''#''\<rparr>"
  by (simp add: configure_def setReviewCount_def setLink_def setDescription_def setImage_def
        CardBuilder_new_def)

lemma configure_zero:
  "configure tonum (p\<lparr>p_rating := Some (Fin 0)\<rparr>) =
     \<lparr>cb_imageSrc = or_default (p_image p) ''./example.jpg'',
      cb_description = or_default (p_title p) ''Untitled product'',
      cb_stars = [], cb_rating = Some (Fin 0),
      cb_reviewCount = (case p_reviews p of None \<Rightarrow> Fin 0 | Some n \<Rightarrow> n),
      cb_link = or_default (p_url p) ''#''\<rparr>"
  by (simp add: configure_def setReviewCount_def setLink_def setDescription_def setImage_def
        CardBuilder_new_def setStars_def setRating_def)

text \<open>
  Claim C4, on the code. A product without a rating gets the same rating blocks as a
  product rated 0: the score block with the text \<open>(0)\<close> and no star, and the reviews block.
  \<open>CardBuilder\<close> starts with \<open>rating = 0\<close>, \<open>#renderCards\<close> leaves it there when the
  product has no rating, and the guard \<open>this.rating != null\<close> of \<open>build()\<close> lets it through.
\<close>

theorem C4_absent_rating_renders_blocks:
  "rating_blocks (renderCard tonum h (p\<lparr>p_rating := None\<rparr>)) =
     [Element ''div'' [''score''] [] [Element ''span'' [] [] [TextNode ''(0)'']],
      Element ''div'' [''reviews''] []
        [Element ''img'' [] [(''src'', ''./message-bubble.svg''), (''alt'', ''message-bubble'')] [],
         Element ''span'' [] []
           [TextNode (h_toLocaleString h (case p_reviews p of None \<Rightarrow> Fin 0 | Some n \<Rightarrow> n))],
         Element ''span'' [] [] [TextNode ''reviews'']]]
   \<and> rating_blocks (renderCard tonum h (p\<lparr>p_rating := Some (Fin 0)\<rparr>)) =
       rating_blocks (renderCard tonum h (p\<lparr>p_rating := None\<rparr>))"
  unfolding rating_blocks_renderCard rating_blocks_build configure_absent configure_zero
  by (simp add: score_block_def reviews_block_def String_int_0 exact_int_def)

text \<open>
  Claim C10. For a finite number \<open>r\<close>, \<open>setStars(r)\<close> sets the icons to
  \<open>floor(clamp(r, 0, 5))\<close> full stars, followed by one half star iff \<open>clamp(r, 0, 5)\<close> is
  not an integer; an array is stored as it is; any other argument whose conversion to a
  number is not finite clears the icons.
\<close>

theorem C10_setStars:
  "cb_stars (setStars tonum (JNum (Fin r)) cb) =
      replicate (nat \<lfloor>min 5 (max 0 r)\<rfloor>) FULL @ (if min 5 (max 0 r) \<in> \<int> then [] else [HALF])
   \<and> cb_stars (setStars tonum (JArr icons) cb) = icons
   \<and> ((\<forall>xs. v \<noteq> JArr xs) \<and> \<not> isFinite (Number_js tonum v)
        \<longrightarrow> cb_stars (setStars tonum v cb) = [])"
proof -
  let ?r = "min 5 (max 0 r)"
  have int_iff: "(?r \<in> \<int>) = (of_int \<lfloor>?r\<rfloor> = ?r)"
    by (metis Ints_cases Ints_of_int floor_of_int)
  have five: "?r \<in> \<int>" if "\<not> ?r < 5"
  proof -
    from that have "?r = 5" by simp
    then show ?thesis by simp
  qed
  have a: "cb_stars (setStars tonum (JNum (Fin r)) cb) =
      replicate (nat \<lfloor>?r\<rfloor>) FULL @ (if ?r \<in> \<int> then [] else [HALF])"
  proof (cases "?r \<in> \<int>")
    case True
    then have "?r = of_int \<lfloor>?r\<rfloor>" using int_iff by simp
    then show ?thesis using True by (simp add: setStars_def Let_def)
  next
    case False
    have lt: "?r < 5" using five False by blast
    have ne: "?r \<noteq> of_int \<lfloor>?r\<rfloor>" using int_iff False by metis
    from lt ne have "?r \<noteq> of_int \<lfloor>?r\<rfloor>" "?r < 5" by blast+
    then show ?thesis using False by (simp add: setStars_def Let_def)
  qed
  have b: "cb_stars (setStars tonum (JArr icons) cb) = icons"
    by (simp add: setStars_def)
  have c: "(\<forall>xs. v \<noteq> JArr xs) \<and> \<not> isFinite (Number_js tonum v)
        \<longrightarrow> cb_stars (setStars tonum v cb) = []"
    by (cases v; cases "Number_js tonum v") (simp_all add: setStars_def)
  show ?thesis using a b c by blast
qed

lemma floor_7_2: "\<lfloor>7 / 2 :: rat\<rfloor> = 3"
  by (simp add: floor_eq_iff)

lemma not_int_7_2: "(7 / 2 :: rat) \<notin> \<int>"
proof
  assume "(7 / 2 :: rat) \<in> \<int>"
  then have "of_int \<lfloor>7 / 2 :: rat\<rfloor> = (7 / 2 :: rat)" by (rule of_int_floor)
  then show False unfolding floor_7_2 by simp
qed

theorem C10_setStars_witness:
  "cb_stars (setStars tonum_NaN (JNum (Fin (7 / 2))) CardBuilder_new) =
      [''./star.svg'', ''./star.svg'', ''./star.svg'', ''./star-half.svg'']
   \<and> (\<forall>xs. (JUndefined :: string jsval) \<noteq> JArr xs)
   \<and> \<not> isFinite (Number_js tonum_NaN (JUndefined :: string jsval))
   \<and> cb_stars (setStars tonum_NaN JUndefined (CardBuilder_new\<lparr>cb_stars := [''./star.svg'']\<rparr>)) = []"
  using C10_setStars [of tonum_NaN "7 / 2" CardBuilder_new "[]" JUndefined]
     C10_setStars [of tonum_NaN "7 / 2" "CardBuilder_new\<lparr>cb_stars := [''./star.svg'']\<rparr>" "[]" JUndefined]
  by (simp add: floor_7_2 not_int_7_2 FULL_def HALF_def numeral_eq_Suc)


section \<open>Properties of the builder's setters\<close>

lemma or_one_not_NaN: "(if truthy_num x then x else Fin c) \<noteq> NaN"
  by (cases x) simp_all

lemma Math_max_one_ge: "x \<noteq> NaN \<Longrightarrow> num_le (Fin 1) (Math_max (Fin 1) x)"
  by (cases x) simp_all

lemma Math_max_one_low:
  "\<not> num_le (Fin 1) x \<Longrightarrow> Math_max (Fin 1) (if truthy_num x then x else Fin 1) = Fin 1"
  by (cases x) (simp_all add: max_def)

lemma Math_max_one_high:
  "num_le (Fin 1) x \<Longrightarrow> Math_max (Fin 1) (if truthy_num x then x else Fin 1) = x"
  by (cases x) (auto simp add: max_def)

lemma setPage_ge: "num_le (Fin 1) (rb_page (setPage tonum p b))"
  by (simp add: setPage_def Math_max_one_ge or_one_not_NaN)

lemma setTotalPages_ge: "num_le (Fin 1) (rb_totalPages (setTotalPages tonum tp b))"
  by (simp add: setTotalPages_def Math_max_one_ge or_one_not_NaN)

lemma call_setter_inv:
  assumes "num_le (Fin 1) (rb_page b)" and "num_le (Fin 1) (rb_totalPages b)"
  shows "num_le (Fin 1) (rb_page (call_setter tonum b s))
       \<and> num_le (Fin 1) (rb_totalPages (call_setter tonum b s))"
proof (cases s)
  case (SetPage v)
  then show ?thesis using assms setPage_ge [of tonum v b] by (simp add: setPage_def)
next
  case (SetTotalPages v)
  then show ?thesis using assms setTotalPages_ge [of tonum v b] by (simp add: setTotalPages_def)
qed (use assms in \<open>simp_all add: setIcon_def setLabel_def setKeyword_def setCount_def
       setProducts_def setResultsEl_def onPageClick_def\<close>)

lemma chain_inv:
  "num_le (Fin 1) (rb_page b) \<Longrightarrow> num_le (Fin 1) (rb_totalPages b) \<Longrightarrow>
   num_le (Fin 1) (rb_page (chain tonum b calls))
   \<and> num_le (Fin 1) (rb_totalPages (chain tonum b calls))"
proof (induction calls arbitrary: b)
  case Nil
  then show ?case by (simp add: chain_def)
next
  case (Cons s calls)
  have step: "num_le (Fin 1) (rb_page (call_setter tonum b s))
       \<and> num_le (Fin 1) (rb_totalPages (call_setter tonum b s))"
    using Cons.prems by (rule call_setter_inv)
  have "chain tonum b (s # calls) = chain tonum (call_setter tonum b s) calls"
    by (simp add: chain_def)
  then show ?case using Cons.IH [of "call_setter tonum b s"] step by simp
qed

text \<open>
  Claim C9, as stated, fails: \<open>setCount(Infinity)\<close> stores \<open>Infinity\<close>, which is not
  finite, and \<open>setKeyword(42)\<close> stores the number 42, which is not a string.
\<close>

theorem C9_counterexample:
  "rb_count (setCount tonum_NaN (JNum PosInf) (ResultsUIBuilder_new None None None :: nat ResultsUIBuilder))
     = PosInf
   \<and> \<not> isFinite PosInf
   \<and> rb_keyword (setKeyword (JNum (Fin 42)) (ResultsUIBuilder_new None None None :: nat ResultsUIBuilder))
     = JNum (Fin 42)"
  by (simp add: setCount_def setKeyword_def)

text \<open>
  Claim C9, amended. \<open>setPage\<close> and \<open>setTotalPages\<close> store a number \<open>\<ge> 1\<close>: the
  argument's number when that is \<open>\<ge> 1\<close>, and 1 otherwise (NaN, zero, negative, below 1).
  \<open>setCount\<close> stores a number that is never NaN: 0 for NaN, the argument's number
  otherwise. \<open>setProducts\<close> stores an array, the empty one for a non-array.
  \<open>setKeyword\<close> stores the empty string for \<open>undefined\<close> and \<open>null\<close> and any other value
  as it is. After any chain of setter calls on a new builder, \<open>page \<ge> 1\<close> and
  \<open>totalPages \<ge> 1\<close>.
\<close>

theorem C9_setters_normalize:
  "num_le (Fin 1) (rb_page (setPage tonum p b))
   \<and> (\<not> num_le (Fin 1) (Number_js tonum p) \<longrightarrow> rb_page (setPage tonum p b) = Fin 1)
   \<and> (num_le (Fin 1) (Number_js tonum p) \<longrightarrow> rb_page (setPage tonum p b) = Number_js tonum p)
   \<and> num_le (Fin 1) (rb_totalPages (setTotalPages tonum tp b))
   \<and> (\<not> num_le (Fin 1) (Number_js tonum tp) \<longrightarrow> rb_totalPages (setTotalPages tonum tp b) = Fin 1)
   \<and> (num_le (Fin 1) (Number_js tonum tp)
        \<longrightarrow> rb_totalPages (setTotalPages tonum tp b) = Number_js tonum tp)
   \<and> rb_count (setCount tonum n b) \<noteq> NaN
   \<and> (Number_js tonum n = NaN \<longrightarrow> rb_count (setCount tonum n b) = Fin 0)
   \<and> (Number_js tonum n \<noteq> NaN \<longrightarrow> rb_count (setCount tonum n b) = Number_js tonum n)
   \<and> rb_products (setProducts (JArr ps) b) = ps
   \<and> ((\<forall>xs. v \<noteq> JArr xs) \<longrightarrow> rb_products (setProducts v b) = [])
   \<and> rb_keyword (setKeyword JUndefined b) = JStr []
   \<and> rb_keyword (setKeyword JNull b) = JStr []
   \<and> (kw \<noteq> JUndefined \<and> kw \<noteq> JNull \<longrightarrow> rb_keyword (setKeyword kw b) = kw)
   \<and> num_le (Fin 1) (rb_page (chain tonum (ResultsUIBuilder_new headerEl paginationEl resultsEl) calls))
   \<and> num_le (Fin 1)
        (rb_totalPages (chain tonum (ResultsUIBuilder_new headerEl paginationEl resultsEl) calls))"
proof -
  have p2: "\<not> num_le (Fin 1) (Number_js tonum p) \<longrightarrow> rb_page (setPage tonum p b) = Fin 1"
    by (simp add: setPage_def Math_max_one_low)
  have p3: "num_le (Fin 1) (Number_js tonum p) \<longrightarrow> rb_page (setPage tonum p b) = Number_js tonum p"
    by (simp add: setPage_def Math_max_one_high)
  have t2: "\<not> num_le (Fin 1) (Number_js tonum tp)
              \<longrightarrow> rb_totalPages (setTotalPages tonum tp b) = Fin 1"
    by (simp add: setTotalPages_def Math_max_one_low)
  have t3: "num_le (Fin 1) (Number_js tonum tp)
              \<longrightarrow> rb_totalPages (setTotalPages tonum tp b) = Number_js tonum tp"
    by (simp add: setTotalPages_def Math_max_one_high)
  have c1: "rb_count (setCount tonum n b) \<noteq> NaN"
    by (simp add: setCount_def or_one_not_NaN)
  have c2: "Number_js tonum n = NaN \<longrightarrow> rb_count (setCount tonum n b) = Fin 0"
    by (simp add: setCount_def)
  have c3: "Number_js tonum n \<noteq> NaN \<longrightarrow> rb_count (setCount tonum n b) = Number_js tonum n"
    by (cases "Number_js tonum n") (simp_all add: setCount_def)
  have a1: "rb_products (setProducts (JArr ps) b) = ps"
    by (simp add: setProducts_def)
  have a2: "(\<forall>xs. v \<noteq> JArr xs) \<longrightarrow> rb_products (setProducts v b) = []"
    by (cases v) (simp_all add: setProducts_def)
  have k1: "rb_keyword (setKeyword JUndefined b) = JStr []"
    by (simp add: setKeyword_def)
  have k2: "rb_keyword (setKeyword JNull b) = JStr []"
    by (simp add: setKeyword_def)
  have k3: "kw \<noteq> JUndefined \<and> kw \<noteq> JNull \<longrightarrow> rb_keyword (setKeyword kw b) = kw"
    by (cases kw) (simp_all add: setKeyword_def)
  have new: "num_le (Fin 1) (rb_page (ResultsUIBuilder_new headerEl paginationEl resultsEl :: 'a ResultsUIBuilder))"
    "num_le (Fin 1) (rb_totalPages (ResultsUIBuilder_new headerEl paginationEl resultsEl :: 'a ResultsUIBuilder))"
    by (simp_all add: ResultsUIBuilder_new_def)
  note inv = chain_inv [OF new, of tonum calls]
  show ?thesis
    using setPage_ge [of tonum p b] p2 p3 setTotalPages_ge [of tonum tp b] t2 t3
      c1 c2 c3 a1 a2 k1 k2 k3 inv
    by blast
qed

theorem C9_setters_normalize_witness:
  "\<not> num_le (Fin 1) (Number_js tonum_NaN (JStr (lit ''abc'') :: nat jsval))
   \<and> rb_page (setPage tonum_NaN (JStr (lit ''abc'')) (ResultsUIBuilder_new None None None :: nat ResultsUIBuilder)) = Fin 1
   \<and> num_le (Fin 1) (Number_js tonum_NaN (JNum (Fin 7) :: nat jsval))
   \<and> rb_totalPages (setTotalPages tonum_NaN (JNum (Fin 7)) (ResultsUIBuilder_new None None None :: nat ResultsUIBuilder)) = Fin 7
   \<and> Number_js tonum_NaN (JUndefined :: nat jsval) = NaN
   \<and> rb_count (setCount tonum_NaN JUndefined (ResultsUIBuilder_new None None None :: nat ResultsUIBuilder)) = Fin 0
   \<and> (\<forall>xs. (JNull :: nat jsval) \<noteq> JArr xs)
   \<and> rb_products (setProducts JNull (ResultsUIBuilder_new None None None :: nat ResultsUIBuilder)) = []
   \<and> (JStr (lit ''mug'') :: nat jsval) \<noteq> JUndefined \<and> (JStr (lit ''mug'') :: nat jsval) \<noteq> JNull
   \<and> rb_keyword (setKeyword (JStr (lit ''mug'')) (ResultsUIBuilder_new None None None :: nat ResultsUIBuilder)) = JStr (lit ''mug'')"
  using C9_setters_normalize [of tonum_NaN "JStr (lit ''abc'')" "ResultsUIBuilder_new None None None :: nat ResultsUIBuilder"
      "JNum (Fin 7)" JUndefined "[]" JNull "JStr (lit ''mug'')" None None None "[]"]
  by (simp add: tonum_NaN_def)

section \<open>Properties of the fetch client\<close>

lemma trim_Nil: "trim [] = []"
  by (simp add: trim_def)

lemma last_dropWhile: "dropWhile P xs \<noteq> [] \<Longrightarrow> last (dropWhile P xs) = last xs"
proof -
  assume ne: "dropWhile P xs \<noteq> []"
  have "xs = takeWhile P xs @ dropWhile P xs" by simp
  then have "last xs = last (takeWhile P xs @ dropWhile P xs)" by simp
  also have "\<dots> = last (dropWhile P xs)" using ne by (rule last_appendR)
  finally show ?thesis by simp
qed

lemma trim_idem: "trim (trim s) = trim s"
proof -
  define a where "a = dropWhile is_white s"
  define b where "b = dropWhile is_white (rev a)"
  have t: "trim s = rev b" by (simp add: trim_def a_def b_def)
  show ?thesis
  proof (cases "b = []")
    case True
    then have "trim s = []" using t by simp
    then show ?thesis by (simp add: trim_Nil)
  next
    case False
    have hb: "\<not> is_white (hd b)" using False unfolding b_def by (rule hd_dropWhile)
    have ane: "a \<noteq> []" using False by (auto simp: b_def)
    have ha: "\<not> is_white (hd a)" using ane unfolding a_def by (rule hd_dropWhile)
    have "last b = last (rev a)" using False unfolding b_def by (rule last_dropWhile)
    then have lb: "last b = hd a" using ane by (simp add: last_rev)
    have "hd (rev b) = last b" using False by (simp add: hd_rev)
    then have "\<not> is_white (hd (rev b))" using lb ha by simp
    then have d1: "dropWhile is_white (rev b) = rev b" by (simp add: dropWhile_eq_self_iff)
    have d2: "dropWhile is_white b = b" using hb by (simp add: dropWhile_eq_self_iff)
    show ?thesis unfolding t by (simp add: trim_def d1 d2)
  qed
qed

lemma urlencode_keyword: "urlencode (lit ''keyword'') = ''keyword''"
  by code_simp

lemma urlencode_page: "urlencode (lit ''page'') = ''page''"
  by code_simp

lemma urlencode_pages: "urlencode (lit ''pages'') = ''pages''"
  by code_simp

lemma lit_names:
  "lit ''keyword'' \<noteq> lit ''page''" "lit ''keyword'' \<noteq> lit ''pages''"
  "lit ''page'' \<noteq> lit ''pages''"
  by (simp_all add: lit_def)

lemma scrape_empty:
  "trim keyword = [] \<Longrightarrow> scrape h nw keyword page pages = (Inl KeywordRequired, [])"
  by (simp add: scrape_def)

lemma scrape_unfold:
  assumes "trim keyword \<noteq> []"
  shows "scrape h nw keyword page pages =
     (case n_fetch nw (request_url h nw keyword page pages) of
        NetworkFailure \<Rightarrow> Inl FetchFailed
      | TimedOut \<Rightarrow> Inl FetchAborted
      | Response status body \<Rightarrow>
          (if \<not> ok status then Inl (HttpError status)
           else case body of InvalidJson \<Rightarrow> Inl JsonSyntaxError | Json r \<Rightarrow> Inr r),
      [request_url h nw keyword page pages])"
proof -
  have ne: "keyword \<noteq> []" using assms trim_Nil by auto
  show ?thesis
    using assms ne
    by (cases page; cases pages)
       (simp_all add: scrape_def Let_def request_url_def params_toString_def urlencode_keyword
          urlencode_page urlencode_pages lit_names)
qed

lemma scrape_fails:
  assumes "trim keyword \<noteq> []" and "fetch_fails (n_fetch nw (request_url h nw keyword page pages))"
  shows "\<exists>e. scrape h nw keyword page pages = (Inl e, [request_url h nw keyword page pages])"
  using assms(2) unfolding scrape_unfold [OF assms(1)]
  by (cases "n_fetch nw (request_url h nw keyword page pages)") simp_all

lemma scrape_requests:
  "trim keyword \<noteq> [] \<Longrightarrow>
   snd (scrape h nw keyword page pages) = [request_url h nw keyword page pages]"
  by (simp add: scrape_unfold)

lemma scalars_low: "\<forall>u \<in> set us. u < 0xD800 \<Longrightarrow> scalars us = us"
  by (induction us rule: scalars.induct) (simp_all add: is_high_def is_low_def)

lemma utf8_low: "\<forall>u \<in> set us. u < 0x80 \<Longrightarrow> concat (map utf8 us) = us"
  by (induction us) (simp_all add: utf8_def)

lemma numchar_low: "\<forall>c \<in> set ''-0123456789''. (of_char c :: int) < 0x80"
  by code_simp

lemma numchar_byte: "\<forall>c \<in> set ''-0123456789''. encode_byte (of_char c) = [c]"
  by code_simp

lemma encode_numchars:
  "set s \<subseteq> set ''-0123456789'' \<Longrightarrow> concat (map encode_byte (map of_char s)) = s"
proof (induction s)
  case Nil
  then show ?case by simp
next
  case (Cons c s)
  have c: "c \<in> set ''-0123456789''" using Cons.prems by auto
  have "encode_byte (of_char c) = [c]" using numchar_byte c by blast
  moreover have "concat (map encode_byte (map of_char s)) = s" using Cons by auto
  ultimately show ?case by simp
qed

lemma urlencode_id:
  assumes "set s \<subseteq> set ''-0123456789''"
  shows "urlencode (lit s) = s"
proof -
  have low: "\<forall>u \<in> set (lit s). u < 0x80"
    using assms numchar_low by (auto simp add: lit_def)
  then have "\<forall>u \<in> set (lit s). u < 0xD800" by auto
  then have s: "scalars (lit s) = lit s" by (rule scalars_low)
  have u: "concat (map utf8 (lit s)) = lit s" using low by (rule utf8_low)
  show ?thesis
    unfolding urlencode_def s u unfolding lit_def using assms by (rule encode_numchars)
qed

lemma urlencode_String_int: "urlencode (lit (String_int i)) = String_int i"
  using String_int_chars by (rule urlencode_id)

section \<open>Properties of the page controller\<close>




lemma trim_spaces: "trim (lit ''   '') = []"
  by code_simp

text \<open>
  Claim C7. When the submitted keyword trims to the empty string, \<open>scrapeAmazon\<close> issues
  no request, leaves \<open>scrapingData\<close> as it was, shows the inline message in the info
  card, and does not depend on the network at all; and \<open>scrape\<close> itself throws, without a
  request, for such a keyword.
\<close>

theorem C7_empty_keyword:
  assumes "trim keywordValue = []"
  shows "c_requests (scrapeAmazon tonum h nw keywordValue pageSelectValue c) = c_requests c
   \<and> c_scrapingData (scrapeAmazon tonum h nw keywordValue pageSelectValue c) = c_scrapingData c
   \<and> c_infoCard (scrapeAmazon tonum h nw keywordValue pageSelectValue c) =
       map_option (\<lambda>i. i\<lparr>i_hidden := False, i_content := Html ENTER_KEYWORD\<rparr>) (c_infoCard c)
   \<and> scrapeAmazon tonum h nw keywordValue pageSelectValue c =
       scrapeAmazon tonum h nw' keywordValue pageSelectValue c
   \<and> scrape h nw keywordValue page pages = (Inl KeywordRequired, [])"
  using assms by (simp add: scrapeAmazon_def Let_def show_info_def scrape_empty)

theorem C7_empty_keyword_witness:
  "trim (lit ''   '') = []
   \<and> c_requests (scrapeAmazon tonum_NaN ieee_host online (lit ''   '') ''2'' c_page3) = []
   \<and> c_scrapingData (scrapeAmazon tonum_NaN ieee_host online (lit ''   '') ''2'' c_page3)
      = \<lparr>sd_keyword = lit ''mug'', sd_page = Fin 3, sd_pages = Some (Fin 1),
          sd_totalPages = Fin 5\<rparr>
   \<and> scrape ieee_host online (lit ''   '') (Some (Fin 1)) None = (Inl KeywordRequired, [])"
  using C7_empty_keyword [OF trim_spaces, of tonum_NaN ieee_host online "''2''" c_page3 online
      "Some (Fin 1)" None]
  by (simp add: trim_spaces c_page3_def c_init_def)

text \<open>
  Claim C5, as stated, fails: \<open>scrapeAmazon\<close> writes the keyword, page 1 and the page
  count into \<open>scrapingData\<close> before the fetch. After a failed search for \<open>lamp\<close> from
  page 3 of the search for \<open>mug\<close>, the state holds \<open>lamp\<close>, page 1 and 2 pages per request.
\<close>

theorem C5_counterexample:
  "trim (lit ''lamp'') \<noteq> []
   \<and> fetch_fails (n_fetch offline ''http://localhost:8081/api/scrape?keyword=lamp&page=1&pages=2'')
   \<and> c_requests (scrapeAmazon tonum_NaN ieee_host offline (lit ''lamp'') ''2'' c_page3)
      = [''http://localhost:8081/api/scrape?keyword=lamp&page=1&pages=2'']
   \<and> c_scrapingData c_page3
      = \<lparr>sd_keyword = lit ''mug'', sd_page = Fin 3, sd_pages = Some (Fin 1),
          sd_totalPages = Fin 5\<rparr>
   \<and> c_scrapingData (scrapeAmazon tonum_NaN ieee_host offline (lit ''lamp'') ''2'' c_page3)
      = \<lparr>sd_keyword = lit ''lamp'', sd_page = Fin 1, sd_pages = Some (Fin 2),
          sd_totalPages = Fin 5\<rparr>"
  by code_simp

text \<open>
  Claim C5, amended. On a submit with a non-empty keyword whose fetch fails, the
  controller shows the retry message, leaves \<open>totalPages\<close> and the rendered results as
  they were and re-enables the button; \<open>keyword\<close>, \<open>page\<close> and \<open>pages\<close> hold the
  trimmed input, 1 and the parsed page count (absent when it is not finite).
\<close>

theorem C5_failed_submit:
  assumes "trim keywordValue \<noteq> []"
    and "fetch_fails (n_fetch nw (request_url h nw (trim keywordValue) (Some (Fin 1))
           (if isFinite (parseInt h pageSelectValue (Some 10))
            then Some (parseInt h pageSelectValue (Some 10)) else None)))"
  shows "c_scrapingData (scrapeAmazon tonum h nw keywordValue pageSelectValue c) =
           (c_scrapingData c)\<lparr>sd_keyword := trim keywordValue, sd_page := Fin 1,
              sd_pages := (if isFinite (parseInt h pageSelectValue (Some 10))
                           then Some (parseInt h pageSelectValue (Some 10)) else None)\<rparr>
   \<and> sd_totalPages (c_scrapingData (scrapeAmazon tonum h nw keywordValue pageSelectValue c)) =
       sd_totalPages (c_scrapingData c)
   \<and> c_infoCard (scrapeAmazon tonum h nw keywordValue pageSelectValue c) =
       map_option (\<lambda>i. i\<lparr>i_hidden := False, i_content := Text RETRY_MESSAGE\<rparr>) (c_infoCard c)
   \<and> c_requests (scrapeAmazon tonum h nw keywordValue pageSelectValue c) =
       c_requests c @ [request_url h nw (trim keywordValue) (Some (Fin 1))
                         (if isFinite (parseInt h pageSelectValue (Some 10))
                          then Some (parseInt h pageSelectValue (Some 10)) else None)]
   \<and> c_built (scrapeAmazon tonum h nw keywordValue pageSelectValue c) = c_built c
   \<and> c_buttonDisabled (scrapeAmazon tonum h nw keywordValue pageSelectValue c) = False"
proof -
  define pages where
    "pages = (if isFinite (parseInt h pageSelectValue (Some 10))
              then Some (parseInt h pageSelectValue (Some 10)) else None)"
  have tt: "trim (trim keywordValue) \<noteq> []" using assms(1) by (simp add: trim_idem)
  obtain e where
    "scrape h nw (trim keywordValue) (Some (Fin 1)) pages =
     (Inl e, [request_url h nw (trim keywordValue) (Some (Fin 1)) pages])"
    using scrape_fails [OF tt assms(2) [folded pages_def]] by blast
  then show ?thesis
    unfolding pages_def [symmetric]
    using assms(1) by (simp add: scrapeAmazon_def Let_def show_info_def pages_def [symmetric])
qed

theorem C5_failed_submit_witness:
  "trim (lit ''lamp'') \<noteq> []
   \<and> fetch_fails (n_fetch offline (request_url ieee_host offline (trim (lit ''lamp''))
        (Some (Fin 1))
        (if isFinite (parseInt ieee_host ''2'' (Some 10))
         then Some (parseInt ieee_host ''2'' (Some 10)) else None)))
   \<and> sd_totalPages (c_scrapingData
        (scrapeAmazon tonum_NaN ieee_host offline (lit ''lamp'') ''2'' c_page3)) = Fin 5
   \<and> c_infoCard (scrapeAmazon tonum_NaN ieee_host offline (lit ''lamp'') ''2'' c_page3) =
       Some \<lparr>i_hidden = False, i_content = Text ''Could not load results. Please try again.''\<rparr>"
proof -
  have t: "trim (lit ''lamp'') \<noteq> []" by code_simp
  have f: "fetch_fails (n_fetch offline (request_url ieee_host offline (trim (lit ''lamp''))
        (Some (Fin 1))
        (if isFinite (parseInt ieee_host ''2'' (Some 10))
         then Some (parseInt ieee_host ''2'' (Some 10)) else None)))"
    by (simp add: offline_def no_route_def)
  show ?thesis
    using t f C5_failed_submit [OF t f, of tonum_NaN c_page3]
    by (simp add: c_page3_def c_init_def RETRY_MESSAGE_def)
qed





section \<open>Properties of the query string\<close>

lemma scrapeAmazon_requests:
  assumes "trim keywordValue \<noteq> []"
  shows "c_requests (scrapeAmazon tonum h nw keywordValue pageSelectValue c) =
           c_requests c @ [request_url h nw (trim keywordValue) (Some (Fin 1))
                             (if isFinite (parseInt h pageSelectValue (Some 10))
                              then Some (parseInt h pageSelectValue (Some 10)) else None)]"
proof -
  have tt: "trim (trim keywordValue) \<noteq> []" using assms by (simp add: trim_idem)
  show ?thesis
    using assms scrape_requests [OF tt, of h nw "Some (Fin 1)"
        "if isFinite (parseInt h pageSelectValue (Some 10))
         then Some (parseInt h pageSelectValue (Some 10)) else None"]
    by (auto simp add: scrapeAmazon_def Let_def show_info_def hide_info_def updateResultsUI_def
          split: prod.splits sum.splits)
qed

lemma String_int_1: "String_int 1 = ''1''"
  by (simp add: String_int_def decimal.simps digit_def)

lemma page_1: "urlencode (lit (String_num f (Fin 1))) = ''1''"
  using String_num_exact [of 1 f] urlencode_String_int [of 1]
  by (simp add: num_def String_int_1)

text \<open>
  Claim C8, as stated, fails: \<open>scrape\<close> leaves a parameter out only when its argument is
  \<open>undefined\<close> or \<open>null\<close>. The non-finite numbers \<open>NaN\<close> and \<open>Infinity\<close> are sent, as
  \<open>page=NaN\<close> and \<open>pages=Infinity\<close>.
\<close>

theorem C8_counterexample:
  "trim (lit ''mug'') \<noteq> [] \<and> \<not> isFinite NaN \<and> \<not> isFinite PosInf
   \<and> snd (scrape ieee_host offline (lit ''mug'') (Some NaN) (Some PosInf)) =
       [''http://localhost:8081/api/scrape?keyword=mug&page=NaN&pages=Infinity'']"
  by code_simp

text \<open>
  Claim C8, amended. For a keyword that does not trim to the empty string, the one
  request goes to \<open>{API_BASE}/scrape?keyword=\<close> followed by the url-encoded keyword;
  \<open>&page=\<close> and \<open>&pages=\<close> follow with the url-encoded \<open>String\<close> of the argument exactly
  when the argument is not \<open>undefined\<close> or \<open>null\<close>. For an integer of absolute value at
  most \<open>2^53\<close> that is its decimal string. On a submit whose page-count selection does
  not parse to a finite number, the controller passes \<open>undefined\<close>, and the request
  carries \<open>page=1\<close> and no \<open>pages\<close>.
\<close>

theorem C8_query_string:
  assumes "trim keyword \<noteq> []"
  shows "snd (scrape h nw keyword page pages) =
      [n_api_base nw @ ''/scrape?keyword='' @ urlencode keyword
       @ (case page of None \<Rightarrow> []
          | Some n \<Rightarrow> ''&page='' @ urlencode (lit (String_num (h_numstr h) n)))
       @ (case pages of None \<Rightarrow> []
          | Some n \<Rightarrow> ''&pages='' @ urlencode (lit (String_num (h_numstr h) n)))]
   \<and> (\<bar>i\<bar> \<le> 2 ^ 53 \<longrightarrow> urlencode (lit (String_num (h_numstr h) (num i))) = String_int i)
   \<and> (\<not> isFinite (parseInt h pageSelectValue (Some 10)) \<longrightarrow>
        c_requests (scrapeAmazon tonum h nw keyword pageSelectValue c) =
          c_requests c @
            [n_api_base nw @ ''/scrape?keyword='' @ urlencode (trim keyword) @ ''&page=1''])"
proof -
  have a: "snd (scrape h nw keyword page pages) =
      [n_api_base nw @ ''/scrape?keyword='' @ urlencode keyword
       @ (case page of None \<Rightarrow> []
          | Some n \<Rightarrow> ''&page='' @ urlencode (lit (String_num (h_numstr h) n)))
       @ (case pages of None \<Rightarrow> []
          | Some n \<Rightarrow> ''&pages='' @ urlencode (lit (String_num (h_numstr h) n)))]"
    using scrape_requests [OF assms, of h nw page pages] by (simp add: request_url_def)
  have b: "\<bar>i\<bar> \<le> 2 ^ 53 \<longrightarrow>
             urlencode (lit (String_num (h_numstr h) (num i))) = String_int i"
    by (simp add: String_num_exact urlencode_String_int)
  have u: "request_url h nw (trim keyword) (Some (Fin 1)) None =
             n_api_base nw @ ''/scrape?keyword='' @ urlencode (trim keyword) @ ''&page=1''"
    unfolding request_url_def option.case page_1 by simp
  have c: "\<not> isFinite (parseInt h pageSelectValue (Some 10)) \<longrightarrow>
        c_requests (scrapeAmazon tonum h nw keyword pageSelectValue c) =
          c_requests c @
            [n_api_base nw @ ''/scrape?keyword='' @ urlencode (trim keyword) @ ''&page=1'']"
  proof
    assume n: "\<not> isFinite (parseInt h pageSelectValue (Some 10))"
    have "c_requests (scrapeAmazon tonum h nw keyword pageSelectValue c) =
            c_requests c @ [request_url h nw (trim keyword) (Some (Fin 1)) None]"
      using scrapeAmazon_requests [OF assms, of tonum h nw pageSelectValue c] n by simp
    then show "c_requests (scrapeAmazon tonum h nw keyword pageSelectValue c) =
          c_requests c @
            [n_api_base nw @ ''/scrape?keyword='' @ urlencode (trim keyword) @ ''&page=1'']"
      unfolding u .
  qed
  show ?thesis using a b c by blast
qed

theorem C8_query_string_witness:
  "trim [0x63, 0x61, 0x66, 0xE9, 0x20, 0x63] \<noteq> []
   \<and> snd (scrape ieee_host online [0x63, 0x61, 0x66, 0xE9, 0x20, 0x63] (Some (num 2)) None) =
       [''http://localhost:8081/api/scrape?keyword=caf%C3%A9+c&page=2'']
   \<and> \<bar>2 :: int\<bar> \<le> 2 ^ 53
   \<and> urlencode (lit (String_num (h_numstr ieee_host) (num 2))) = ''2''
   \<and> \<not> isFinite (parseInt ieee_host ''all'' (Some 10))
   \<and> c_requests (scrapeAmazon tonum_NaN ieee_host online [0x63, 0x61, 0x66, 0xE9, 0x20, 0x63]
        ''all'' c_init) =
       [''http://localhost:8081/api/scrape?keyword=caf%C3%A9+c&page=1'']"
proof -
  have t: "trim [0x63, 0x61, 0x66, 0xE9, 0x20, 0x63] \<noteq> []" by code_simp
  have e0: "trim [0x63, 0x61, 0x66, 0xE9, 0x20, 0x63] = [0x63, 0x61, 0x66, 0xE9, 0x20, 0x63]"
    by code_simp
  have e1: "urlencode [0x63, 0x61, 0x66, 0xE9, 0x20, 0x63] = ''caf%C3%A9+c''" by code_simp
  have e2: "String_int 2 = ''2''" by code_simp
  have e3: "n_api_base online = ''http://localhost:8081/api''" by (simp add: online_def)
  have e4: "parseInt ieee_host ''all'' (Some 10) = NaN" by code_simp
  have e5: "c_requests c_init = []" by (simp add: c_init_def)
  have e6: "urlencode (lit ''2'') = ''2''" by code_simp
  have e7: "String_num (h_numstr ieee_host) (num 2) = ''2''" by code_simp
  show ?thesis
    using t C8_query_string [where keyword = "[0x63, 0x61, 0x66, 0xE9, 0x20, 0x63]"
        and h = ieee_host and nw = online
        and page = "Some (num 2)" and pages = None and i = 2
        and pageSelectValue = "''all''" and tonum = tonum_NaN and c = c_init, OF t]
    by (simp add: e0 e1 e2 e3 e4 e5 e6 e7)
qed

end
